theory Spec2Isabelle
  imports Main "HOL-Library.Word"
begin

section \<open>Parameter values\<close>

text \<open>
  The route hands the parsed query string to the constructor of \<open>TxQuery\<close>: its values
  are strings, arrays of values and nested objects. The code also provides for numbers
  (\<open>typeof value === 'number'\<close>), which another caller can pass; \<open>JNum\<close> is an
  integral number. Numbers with a fraction, \<open>NaN\<close> and the infinities are not modelled.
  A missing parameter (\<open>undefined\<close>) is \<open>None\<close> in the maps below. Characters are
  the code units below 256.
\<close>

datatype jsval = JStr string | JNum int | JArr "jsval list" | JObj

text \<open>
  Truthiness (\<open>!value\<close>): of these values the empty string and the number 0 are falsy.
\<close>

fun truthy :: "jsval \<Rightarrow> bool" where
  "truthy (JStr s) = (s \<noteq> [])"
| "truthy (JNum n) = (n \<noteq> 0)"
| "truthy (JArr xs) = True"
| "truthy JObj = True"

text \<open>\<open>enforceArray\<close>, the last function of the module.\<close>

fun enforceArray :: "jsval \<Rightarrow> jsval list" where
  "enforceArray (JArr xs) = xs"
| "enforceArray v = [v]"

fun joinComma :: "string list \<Rightarrow> string" where
  "joinComma [] = []"
| "joinComma [s] = s"
| "joinComma (s # t # ss) = s @ '','' @ joinComma (t # ss)"

text \<open>
  The decimal text of an integer: \<open>toString()\<close> of an identifier, and of an integral
  number below \<open>10^21\<close> (from there on the language writes an exponent).
\<close>

fun natDigits :: "nat \<Rightarrow> string" where
  "natDigits n =
     (if n < 10 then [char_of (48 + n)]
      else natDigits (n div 10) @ [char_of (48 + n mod 10)])"

declare natDigits.simps [simp del]

definition idToString :: "int \<Rightarrow> string" where
  "idToString i = (if i < 0 then CHR ''-'' # natDigits (nat (- i)) else natDigits (nat i))"

text \<open>The language's \<open>ToString\<close>: an array joins its elements' strings with commas.\<close>

fun toString :: "jsval \<Rightarrow> string" where
  "toString (JStr s) = s"
| "toString (JNum n) = idToString n"
| "toString (JArr xs) = joinComma (map toString xs)"
| "toString JObj = ''[object Object]''"

section \<open>Number parsing of the language\<close>

definition isWhiteSpace :: "char \<Rightarrow> bool" where
  "isWhiteSpace c = ((of_char c :: nat) \<in> set [9, 10, 11, 12, 13, 32, 160])"

definition digitValue :: "char \<Rightarrow> nat option" where
  "digitValue c =
     (let n = (of_char c :: nat) in
      if 48 \<le> n \<and> n \<le> 57 then Some (n - 48)
      else if 97 \<le> n \<and> n \<le> 102 then Some (n - 87)
      else if 65 \<le> n \<and> n \<le> 70 then Some (n - 55)
      else None)"

definition isDigitIn :: "nat \<Rightarrow> char \<Rightarrow> bool" where
  "isDigitIn radix c = (case digitValue c of Some d \<Rightarrow> d < radix | None \<Rightarrow> False)"

definition digitNat :: "char \<Rightarrow> nat" where
  "digitNat c = (case digitValue c of Some d \<Rightarrow> d | None \<Rightarrow> 0)"

definition digitsValue :: "nat \<Rightarrow> string \<Rightarrow> nat" where
  "digitsValue radix ds = foldl (\<lambda>acc c. acc * radix + digitNat c) 0 ds"

text \<open>A non-empty run of digits of the radix, and nothing else.\<close>

definition parseDigits :: "nat \<Rightarrow> string \<Rightarrow> nat option" where
  "parseDigits radix ds =
     (if ds \<noteq> [] \<and> list_all (isDigitIn radix) ds then Some (digitsValue radix ds)
      else None)"

text \<open>
  \<open>parseInt(s, 10)\<close>: leading white space is skipped, one sign is read, then the longest
  run of decimal digits; whatever follows is ignored. \<open>None\<close> is \<open>NaN\<close>. The result is
  the exact integer. Beyond \<open>2^53\<close> the language returns a double near it (and may
  approximate a literal of more than 20 digits); the comparison with 0 and 23 is the
  same, and the only other use of the result is as the argument of the external
  timestamp resolver.
\<close>

definition parseInt :: "string \<Rightarrow> int option" where
  "parseInt s =
     (let t = dropWhile isWhiteSpace s;
          neg = (t \<noteq> [] \<and> hd t = CHR ''-'');
          u = (if t \<noteq> [] \<and> (hd t = CHR ''-'' \<or> hd t = CHR ''+'') then tl t else t);
          z = takeWhile (isDigitIn 10) u
      in if z = [] then None
         else Some (if neg then - int (digitsValue 10 z) else int (digitsValue 10 z)))"

definition trimString :: "string \<Rightarrow> string" where
  "trimString s = rev (dropWhile isWhiteSpace (rev (dropWhile isWhiteSpace s)))"

text \<open>
  \<open>BigInt(s)\<close> on a string: the trimmed text is empty (the value 0), a decimal literal
  with an optional sign, or a binary, octal or hexadecimal literal without sign.
  \<open>None\<close> is the \<open>SyntaxError\<close> the conversion throws.
\<close>

definition StringToBigInt :: "string \<Rightarrow> int option" where
  "StringToBigInt s =
     (case trimString s of
        [] \<Rightarrow> Some 0
      | c # cs \<Rightarrow>
          if c = CHR ''-'' then map_option (\<lambda>n. - int n) (parseDigits 10 cs)
          else if c = CHR ''+'' then map_option int (parseDigits 10 cs)
          else if c = CHR ''0'' \<and> cs \<noteq> [] \<and> (hd cs = CHR ''x'' \<or> hd cs = CHR ''X'')
            then map_option int (parseDigits 16 (tl cs))
          else if c = CHR ''0'' \<and> cs \<noteq> [] \<and> (hd cs = CHR ''o'' \<or> hd cs = CHR ''O'')
            then map_option int (parseDigits 8 (tl cs))
          else if c = CHR ''0'' \<and> cs \<noteq> [] \<and> (hd cs = CHR ''b'' \<or> hd cs = CHR ''B'')
            then map_option int (parseDigits 2 (tl cs))
          else map_option int (parseDigits 10 (c # cs)))"

text \<open>
  \<open>BigInt(v)\<close>: an integral number is taken as it is; any other value is converted to a
  string first. \<open>None\<close> is the error the conversion throws.
\<close>

definition BigInt :: "jsval \<Rightarrow> int option" where
  "BigInt v = (case v of JNum n \<Rightarrow> Some n | _ \<Rightarrow> StringToBigInt (toString v))"

text \<open>\<open>x >>> 0\<close> on an integral number: the value modulo \<open>2^32\<close>.\<close>

definition toUint32 :: "int \<Rightarrow> int" where
  "toUint32 n = n mod 2 ^ 32"

section \<open>Errors\<close>

text \<open>
  \<open>ValidationError field message\<close> is \<open>errors.validationError(field, message)\<close>; a value
  interpolated into the message is left out of the modelled text. \<open>NotFound\<close> is
  \<open>errors.notFound\<close>, \<open>TypeError\<close> and \<open>SyntaxError\<close> are the language's own, and
  \<open>Failure\<close> is whatever an external collaborator raises.
\<close>

datatype error =
    ValidationError string string
  | NotFound
  | TypeError
  | SyntaxError
  | Failure string

section \<open>The range constraint\<close>

text \<open>
  Modelled from the spec: the class \<open>IdConstraints\<close> (utils/id-constraints), which the
  module requires and which is not among the sources. It is a pair of optional inclusive
  bounds, bottom and top, over the identifier space (sections 3 and 4.1 of the
  specification).
\<close>

record IdConstraints =
  bottom :: "int option"
  topBound :: "int option"

text \<open>Modelled from the spec: \<open>new IdConstraints()\<close>, with neither bound set.\<close>

definition newIdConstraints :: IdConstraints where
  "newIdConstraints = \<lparr>bottom = None, topBound = None\<rparr>"

text \<open>
  Modelled from the spec: \<open>addBottom(value)\<close> sets bottom to the maximum of the bound
  held (if any) and the value.
\<close>

definition addBottomConstraint :: "int \<Rightarrow> IdConstraints \<Rightarrow> IdConstraints" where
  "addBottomConstraint v c =
     c\<lparr>bottom := Some (case bottom c of None \<Rightarrow> v | Some b \<Rightarrow> max b v)\<rparr>"

text \<open>
  Modelled from the spec: \<open>addTop(value)\<close> sets top to the minimum of the bound held
  (if any) and the value.
\<close>

definition addTopConstraint :: "int \<Rightarrow> IdConstraints \<Rightarrow> IdConstraints" where
  "addTopConstraint v c =
     c\<lparr>topBound := Some (case topBound c of None \<Rightarrow> v | Some t \<Rightarrow> min t v)\<rparr>"

text \<open>Modelled from the spec: \<open>isEmpty\<close>, neither bound is set.\<close>

definition isEmpty :: "IdConstraints \<Rightarrow> bool" where
  "isEmpty c = (bottom c = None \<and> topBound c = None)"

text \<open>
  Modelled from the spec: \<open>isUnfeasible\<close> of the constraints, bottom exceeds top once
  both are set.
\<close>

definition constraintsUnfeasible :: "IdConstraints \<Rightarrow> bool" where
  "constraintsUnfeasible c =
     (case (bottom c, topBound c) of (Some b, Some t) \<Rightarrow> t < b | _ \<Rightarrow> False)"

text \<open>
  Modelled from the spec: the range descriptor \<open>resolve()\<close> returns, with \<open>gte\<close> and
  \<open>lte\<close> each present when its bound is set.
\<close>

record RangeDescriptor =
  gte :: "int option"
  lte :: "int option"

definition resolve :: "IdConstraints \<Rightarrow> RangeDescriptor" where
  "resolve c = \<lparr>gte = bottom c, lte = topBound c\<rparr>"

section \<open>The type taxonomy\<close>

text \<open>
  \<open>typeMapping\<close> is an object literal, so a lookup \<open>typeMapping[value]\<close> finds the keys
  written in the literal and, after them, the members every object inherits from
  \<open>Object.prototype\<close>. \<open>Group\<close> is an array of codes, \<open>Single\<close> one code and
  \<open>Inherited\<close> an inherited member (a function or object: neither \<open>undefined\<close> nor an
  array).
\<close>

datatype mapped = Group "int list" | Single int | Inherited string

definition typeMappingOwn :: "(string \<times> mapped) list" where
  "typeMappingOwn =
     [(''payments'', Group [0, 1, 2, 8, 9, 13, 14, 15, 19, 20]),
      (''trustlines'', Group [6, 7, 21]),
      (''dex'', Group [3, 4, 12, 22, 23]),
      (''settings'', Group [0, 5, 6, 7, 8, 9, 10, 11, 16, 17, 18, 21]),
      (''createAccount'', Single 0),
      (''payment'', Single 1),
      (''pathPaymentStrictReceive'', Single 2),
      (''pathPaymentStrictSend'', Single 13),
      (''createPassiveSellOffer'', Single 4),
      (''manageSellOffer'', Single 3),
      (''manageBuyOffer'', Single 12),
      (''setOptions'', Single 5),
      (''changeTrust'', Single 6),
      (''allowTrust'', Single 7),
      (''accountMerge'', Single 8),
      (''inflation'', Single 9),
      (''manageData'', Single 10),
      (''bumpSequence'', Single 11),
      (''createClaimableBalance'', Single 14),
      (''claimClaimableBalance'', Single 15),
      (''beginSponsoringFutureReserves'', Single 16),
      (''endSponsoringFutureReserves'', Single 17),
      (''revokeSponsorship'', Single 18),
      (''clawback'', Single 19),
      (''clawbackClaimableBalance'', Single 20),
      (''setTrustLineFlags'', Single 21),
      (''liquidityPoolDeposit'', Single 22),
      (''liquidityPoolWithdraw'', Single 23)]"

definition objectPrototypeKeys :: "string list" where
  "objectPrototypeKeys =
     [''constructor'', ''__defineGetter__'', ''__defineSetter__'', ''hasOwnProperty'',
      ''__lookupGetter__'', ''__lookupSetter__'', ''isPrototypeOf'',
      ''propertyIsEnumerable'', ''toString'', ''valueOf'', ''__proto__'',
      ''toLocaleString'']"

definition typeMapping :: "string \<Rightarrow> mapped option" where
  "typeMapping key =
     (case map_of typeMappingOwn key of
        Some m \<Rightarrow> Some m
      | None \<Rightarrow> if key \<in> set objectPrototypeKeys then Some (Inherited key) else None)"

section \<open>Filter predicates and the search request\<close>

text \<open>
  A member of a \<open>terms\<close> list: a number (an operation code or an internal identifier),
  a string (an offer identifier) or a member inherited from \<open>Object.prototype\<close>.
\<close>

datatype termval = TNum int | TStr string | TMember string

text \<open>\<open>{terms: {field: values}}\<close> and \<open>{range: {id: descriptor}}\<close>.\<close>

datatype filter = TermsFilter string "termval list" | RangeFilter RangeDescriptor

text \<open>\<open>Set.add\<close> on a set kept in insertion order, as \<open>Array.from\<close> reads it back.\<close>

definition setAdd :: "'a list \<Rightarrow> 'a \<Rightarrow> 'a list" where
  "setAdd xs x = (if x \<in> set xs then xs else xs @ [x])"

text \<open>
  The request object \<open>buildQuery\<close> returns; the fields are those of the literal
  (\<open>index\<close>, \<open>_source\<close>, \<open>size\<close>, \<open>timeout\<close>, \<open>track_total_hits\<close>, \<open>sort\<close>,
  \<open>query\<close>, \<open>fields\<close>). \<open>rq_sort\<close> lists (field, order) pairs and \<open>rq_query\<close> holds
  the list under \<open>bool.filter\<close>.
\<close>

datatype boolQuery = BoolFilter "filter list"

record SearchRequest =
  rq_index :: string
  rq_source :: bool
  rq_size :: nat
  rq_timeout :: string
  rq_track_total_hits :: nat
  rq_sort :: "(string \<times> string) list"
  rq_query :: boolQuery
  rq_fields :: "string list"

section \<open>Archive and ledger records, response entries\<close>

text \<open>
  An archive record: \<open>tx_id\<close> is the value of its \<open>id\<close> (the 64-bit identifier
  object), \<open>tx_key\<close> its \<open>_id\<close>, the others are the buffers \<open>hash\<close>, \<open>body\<close>,
  \<open>meta\<close> and \<open>result\<close>.
\<close>

record ArchiveTx =
  tx_id :: int
  tx_key :: int
  tx_hash :: string
  tx_body :: string
  tx_meta :: string
  tx_result :: string

text \<open>
  \<open>id.high\<close>: the upper 32 bits of the identifier, which the identifier object holds as
  a signed 32-bit integer.
\<close>

definition idHigh :: "int \<Rightarrow> int" where
  "idHigh i = signed_take_bit 31 (drop_bit 32 i)"

text \<open>A ledger-metadata record: \<open>ledger_key\<close> is its \<open>_id\<close>, the sequence number.\<close>

record Ledger =
  ledger_key :: int
  ledger_ts :: int

text \<open>
  The response entry (\<open>TxQueryResponse\<close>); \<open>None\<close> in \<open>re_ledger\<close>, \<open>re_ts\<close> and
  \<open>re_paging_token\<close> is \<open>undefined\<close> (for the token: the property is absent).
\<close>

record ResponseEntry =
  re_id :: string
  re_hash :: string
  re_ledger :: "int option"
  re_ts :: "int option"
  re_body :: string
  re_meta :: string
  re_result :: string
  re_paging_token :: "string option"

text \<open>
  What a call of an external function hands back: a promise (settled with a failure or a
  value) when the function is asynchronous, the value itself otherwise.
\<close>

datatype 'a returned = Promise "error + 'a" | Direct 'a

text \<open>\<open>await\<close>: the outcome of a promise; any other value as it is.\<close>

fun await :: "'a returned \<Rightarrow> error + 'a" where
  "await (Promise r) = r"
| "await (Direct v) = Inr v"

text \<open>
  \<open>const [x] = value\<close>: an array gives its first element (\<open>undefined\<close> when it has
  none); a promise is not iterable, and the destructuring throws a \<open>TypeError\<close>.
\<close>

fun destructureFirst :: "'a list returned \<Rightarrow> error + 'a option" where
  "destructureFirst (Promise r) = Inl TypeError"
| "destructureFirst (Direct []) = Inr None"
| "destructureFirst (Direct (x # xs)) = Inr (Some x)"

section \<open>External collaborators\<close>

text \<open>
  The functions and stores the module requires, none of them among the sources; the
  model takes them as parameters. A lookup that the code awaits is given by its outcome
  (\<open>Inl\<close> a failure). The database lookups return the \<open>_id\<close> of each matched document
  (the projection the code asks for). \<open>validateOfferId\<close> stands for the call and the
  \<open>toString()\<close> of its result; \<open>toFQAN\<close> for \<open>new Asset(a).toFQAN()\<close>, \<open>None\<close> when it
  throws; \<open>bufferToString\<close> for \<open>buffer.toString(encoding)\<close>; \<open>search\<close> returns the
  \<open>_id\<close> of every hit; a ledger sequence is an integral number; \<open>fetchLedgers\<close> is
  called both with and without \<open>await\<close>, so its result is kept as returned.
\<close>

record env =
  validateNetwork :: "string \<Rightarrow> error option"
  normalizeLimit :: "jsval option \<Rightarrow> nat"
  normalizeOrder :: "string \<Rightarrow> int"
  opIndex :: "string \<Rightarrow> string"
  resolveSequenceFromTimestamp :: "string \<Rightarrow> int option \<Rightarrow> error + int"
  isValidEd25519PublicKey :: "jsval \<Rightarrow> bool"
  findAccounts :: "string \<Rightarrow> jsval list \<Rightarrow> error + int list"
  toFQAN :: "jsval \<Rightarrow> string option"
  findAssets :: "string \<Rightarrow> string list \<Rightarrow> error + int list"
  validateOfferId :: "jsval \<Rightarrow> string \<Rightarrow> error + string"
  validatePoolId :: "jsval \<Rightarrow> error option"
  findPools :: "string \<Rightarrow> jsval list \<Rightarrow> error + int list"
  fetchMemoIds :: "string \<Rightarrow> jsval list \<Rightarrow> error + int list"
  search :: "SearchRequest \<Rightarrow> error + string list"
  fetchArchiveTransactions :: "string \<Rightarrow> int list \<Rightarrow> int \<Rightarrow> error + ArchiveTx list"
  fetchSingleArchiveTransaction :: "string \<Rightarrow> string \<Rightarrow> error + ArchiveTx option"
  fetchLedgers :: "string \<Rightarrow> int list \<Rightarrow> Ledger list returned"
  bufferToString :: "string \<Rightarrow> string \<Rightarrow> string"

section \<open>The query object\<close>

text \<open>
  The fields of \<open>TxQuery\<close>. \<open>params\<close> holds the parameters left after \<open>order\<close>,
  \<open>cursor\<close> and \<open>limit\<close> were taken out; \<open>isUnfeasible\<close> is unset (false) until a
  step sets it.
\<close>

record TxQuery =
  network :: string
  basePath :: string
  cursor :: "jsval option"
  order :: string
  limit :: nat
  constraints :: IdConstraints
  params :: "string \<Rightarrow> jsval option"
  isUnfeasible :: bool

text \<open>
  The constructor. The default \<open>'desc'\<close> of \<open>order\<close> applies when the parameter is
  \<open>undefined\<close>; the comparison with \<open>'asc'\<close> and \<open>'desc'\<close> is strict, so only these
  two strings pass.
\<close>

definition newTxQuery ::
  "env \<Rightarrow> string \<Rightarrow> string \<Rightarrow> (string \<Rightarrow> jsval option) \<Rightarrow> error + TxQuery" where
  "newTxQuery e net path query =
     (case validateNetwork e net of
        Some err \<Rightarrow> Inl err
      | None \<Rightarrow>
          (let ord = (case query ''order'' of None \<Rightarrow> JStr ''desc'' | Some v \<Rightarrow> v) in
           if ord \<noteq> JStr ''asc'' \<and> ord \<noteq> JStr ''desc''
           then Inl (ValidationError ''order'' ''Invalid sorting order'')
           else Inr \<lparr>network = net, basePath = path, cursor = query ''cursor'',
                     order = toString ord, limit = normalizeLimit e (query ''limit''),
                     constraints = newIdConstraints,
                     params = (\<lambda>k. if k \<in> set [''order'', ''cursor'', ''limit''] then None
                                    else query k),
                     isUnfeasible = False\<rparr>))"

section \<open>The filter steps\<close>

text \<open>
  Every step works on the query object and the filters aggregator; the model passes both
  through and returns them, or the failure thrown.

  \<open>addCursorFilter\<close>. The \<open>try\<close> block holds the conversion and the two calls on the
  constraints; only the conversion can throw (the constraints have no error conditions),
  and the \<open>catch\<close> turns that into the validation failure.
\<close>

definition addCursorFilter :: "TxQuery \<Rightarrow> error + TxQuery" where
  "addCursorFilter q =
     (case cursor q of
        None \<Rightarrow> Inr q
      | Some v \<Rightarrow>
          if \<not> truthy v then Inr q
          else (case BigInt v of
                  None \<Rightarrow> Inl (ValidationError ''cursor'' ''Invalid paging cursor'')
                | Some c \<Rightarrow>
                    if c < 0 then Inr q
                    else if order q = ''asc''
                      then Inr (q\<lparr>constraints := addBottomConstraint (c + 1) (constraints q)\<rparr>)
                      else Inr (q\<lparr>constraints := addTopConstraint (c - 1) (constraints q)\<rparr>)))"

text \<open>
  \<open>addTsFilter\<close>. Both resolutions are started (\<open>to\<close> first) and awaited together; a
  failure of either fails the step (when both fail, the model reports the one of \<open>to\<close>).
  \<open>BigInt(n >>> 0) << 32n\<close> is \<open>push_bit 32\<close> of the unsigned 32-bit value, on
  unbounded integers.
\<close>

definition resolveParam :: "env \<Rightarrow> TxQuery \<Rightarrow> string \<Rightarrow> (error + int) option" where
  "resolveParam e q name =
     map_option (\<lambda>t. resolveSequenceFromTimestamp e (network q) (parseInt (toString t)))
       (params q name)"

definition addTsFilter :: "env \<Rightarrow> TxQuery \<Rightarrow> error + TxQuery" where
  "addTsFilter e q =
     (case resolveParam e q ''to'' of
        Some (Inl err) \<Rightarrow> Inl err
      | toR \<Rightarrow>
         (case resolveParam e q ''from'' of
            Some (Inl err) \<Rightarrow> Inl err
          | fromR \<Rightarrow>
             (let c1 = (case toR of
                          Some (Inr s) \<Rightarrow>
                            addTopConstraint (push_bit 32 (toUint32 (s + 1))) (constraints q)
                        | _ \<Rightarrow> constraints q);
                  c2 = (case fromR of
                          Some (Inr s) \<Rightarrow> addBottomConstraint (push_bit 32 (toUint32 s)) c1
                        | _ \<Rightarrow> c1)
              in Inr (q\<lparr>constraints := c2\<rparr>))))"

text \<open>\<open>addIdRangeFilter\<close>.\<close>

definition addIdRangeFilter :: "TxQuery \<Rightarrow> filter list \<Rightarrow> TxQuery \<times> filter list" where
  "addIdRangeFilter q filters =
     (if isEmpty (constraints q) then (q, filters)
      else if constraintsUnfeasible (constraints q) then (q\<lparr>isUnfeasible := True\<rparr>, filters)
      else (q, filters @ [RangeFilter (resolve (constraints q))]))"

text \<open>
  \<open>addTypesFilter\<close>: the loop over the supplied values, with the set \<open>searchTypes\<close> as
  accumulator. A string the table does not hold is replaced by its \<open>parseInt\<close>; the
  check that follows (\<open>typeof value !== 'number' || !(value >= 0 && value <= 23)\<close>)
  lets a number in 0..23 pass, whether parsed or supplied as a number, and refuses a
  number outside the range, \<open>NaN\<close> and every value that is neither string nor number.
\<close>

fun typesLoop :: "jsval list \<Rightarrow> termval list \<Rightarrow> error + termval list" where
  "typesLoop [] searchTypes = Inr searchTypes"
| "typesLoop (JStr s # rest) searchTypes =
     (case typeMapping s of
        Some (Group codes) \<Rightarrow> typesLoop rest (foldl setAdd searchTypes (map TNum codes))
      | Some (Single code) \<Rightarrow> typesLoop rest (setAdd searchTypes (TNum code))
      | Some (Inherited m) \<Rightarrow> typesLoop rest (setAdd searchTypes (TMember m))
      | None \<Rightarrow>
          (case parseInt s of
             None \<Rightarrow> Inl (ValidationError ''type'' ''Invalid type filter'')
           | Some n \<Rightarrow>
               if \<not> (0 \<le> n \<and> n \<le> 23)
               then Inl (ValidationError ''type'' ''Invalid type filter'')
               else typesLoop rest (setAdd searchTypes (TNum n))))"
| "typesLoop (JNum n # rest) searchTypes =
     (if \<not> (0 \<le> n \<and> n \<le> 23)
      then Inl (ValidationError ''type'' ''Invalid type filter'')
      else typesLoop rest (setAdd searchTypes (TNum n)))"
| "typesLoop (v # rest) searchTypes = Inl (ValidationError ''type'' ''Invalid type filter'')"

definition addTypesFilter :: "TxQuery \<Rightarrow> filter list \<Rightarrow> error + filter list" where
  "addTypesFilter q filters =
     (case params q ''type'' of
        None \<Rightarrow> Inr filters
      | Some t \<Rightarrow>
          if \<not> truthy t then Inr filters
          else if length (enforceArray t) > 30
            then Inl (ValidationError ''type'' ''Too many type filters.'')
          else (case typesLoop (enforceArray t) [] of
                  Inl err \<Rightarrow> Inl err
                | Inr searchTypes \<Rightarrow>
                    if searchTypes \<noteq> [] then Inr (filters @ [TermsFilter ''type'' searchTypes])
                    else Inr filters))"

text \<open>
  \<open>addAccountFilter\<close>: the loop over the three roles. A role with no match sets the flag
  and the loop goes on with the next role (\<open>continue\<close>).
\<close>

fun accountRoles ::
  "env \<Rightarrow> (string \<times> string) list \<Rightarrow> TxQuery \<Rightarrow> filter list \<Rightarrow> error + TxQuery \<times> filter list"
where
  "accountRoles e [] q filters = Inr (q, filters)"
| "accountRoles e ((param, key) # rest) q filters =
     (case params q param of
        None \<Rightarrow> accountRoles e rest q filters
      | Some a \<Rightarrow>
          if \<not> truthy a then accountRoles e rest q filters
          else if enforceArray a = [] then accountRoles e rest q filters
          else if length (enforceArray a) > 10
            then Inl (ValidationError param ''Too many account conditions.'')
          else if list_ex (\<lambda>address. \<not> isValidEd25519PublicKey e address) (enforceArray a)
            then Inl (ValidationError param ''Invalid account address'')
          else (case findAccounts e (network q) (enforceArray a) of
                  Inl err \<Rightarrow> Inl err
                | Inr accountsFilter \<Rightarrow>
                    if accountsFilter = []
                    then accountRoles e rest (q\<lparr>isUnfeasible := True\<rparr>) filters
                    else accountRoles e rest q
                           (filters @ [TermsFilter key (map TNum accountsFilter)])))"

definition addAccountFilter ::
  "env \<Rightarrow> TxQuery \<Rightarrow> filter list \<Rightarrow> error + TxQuery \<times> filter list" where
  "addAccountFilter e q filters =
     accountRoles e
       [(''account'', ''accounts''), (''source'', ''source''), (''destination'', ''destination'')]
       q filters"

text \<open>\<open>addAssetFilter\<close>: the same loop; every descriptor is brought to its full name first.\<close>

fun assetRoles ::
  "env \<Rightarrow> (string \<times> string) list \<Rightarrow> TxQuery \<Rightarrow> filter list \<Rightarrow> error + TxQuery \<times> filter list"
where
  "assetRoles e [] q filters = Inr (q, filters)"
| "assetRoles e ((param, key) # rest) q filters =
     (case params q param of
        None \<Rightarrow> assetRoles e rest q filters
      | Some a \<Rightarrow>
          if \<not> truthy a then assetRoles e rest q filters
          else if enforceArray a = [] then assetRoles e rest q filters
          else if length (enforceArray a) > 10
            then Inl (ValidationError param ''Too many asset conditions.'')
          else (case those (map (toFQAN e) (enforceArray a)) of
                  None \<Rightarrow> Inl (ValidationError param ''Invalid asset identifier'')
                | Some assets \<Rightarrow>
                    (case findAssets e (network q) assets of
                       Inl err \<Rightarrow> Inl err
                     | Inr assetsFilter \<Rightarrow>
                         if assetsFilter = []
                         then assetRoles e rest (q\<lparr>isUnfeasible := True\<rparr>) filters
                         else assetRoles e rest q
                                (filters @ [TermsFilter key (map TNum assetsFilter)]))))"

definition addAssetFilter ::
  "env \<Rightarrow> TxQuery \<Rightarrow> filter list \<Rightarrow> error + TxQuery \<times> filter list" where
  "addAssetFilter e q filters =
     assetRoles e
       [(''asset'', ''assets''), (''src_asset'', ''srcAsset''), (''dest_asset'', ''desAsset'')]
       q filters"

text \<open>\<open>addOfferFilter\<close>: \<open>offers.map\<close> stops at the first value the validator refuses.\<close>

fun mapOffers :: "env \<Rightarrow> jsval list \<Rightarrow> error + string list" where
  "mapOffers e [] = Inr []"
| "mapOffers e (offer # rest) =
     (case validateOfferId e offer ''offer'' of
        Inl err \<Rightarrow> Inl err
      | Inr s \<Rightarrow> (case mapOffers e rest of Inl err \<Rightarrow> Inl err | Inr ss \<Rightarrow> Inr (s # ss)))"

definition addOfferFilter :: "env \<Rightarrow> TxQuery \<Rightarrow> filter list \<Rightarrow> error + filter list" where
  "addOfferFilter e q filters =
     (case params q ''offer'' of
        None \<Rightarrow> Inr filters
      | Some v \<Rightarrow>
          if \<not> truthy v then Inr filters
          else if length (enforceArray v) > 10
            then Inl (ValidationError ''offer'' ''Too many offer conditions.'')
          else (case mapOffers e (enforceArray v) of
                  Inl err \<Rightarrow> Inl err
                | Inr offers \<Rightarrow>
                    if offers = [] then Inr filters
                    else Inr (filters @ [TermsFilter ''offer'' (map TStr offers)])))"

text \<open>\<open>addPoolFilter\<close>.\<close>

fun validatePools :: "env \<Rightarrow> jsval list \<Rightarrow> error option" where
  "validatePools e [] = None"
| "validatePools e (pool # rest) =
     (case validatePoolId e pool of Some err \<Rightarrow> Some err | None \<Rightarrow> validatePools e rest)"

definition addPoolFilter ::
  "env \<Rightarrow> TxQuery \<Rightarrow> filter list \<Rightarrow> error + TxQuery \<times> filter list" where
  "addPoolFilter e q filters =
     (case params q ''pool'' of
        None \<Rightarrow> Inr (q, filters)
      | Some v \<Rightarrow>
          if \<not> truthy v then Inr (q, filters)
          else if length (enforceArray v) > 10
            then Inl (ValidationError ''pool'' ''Too many pool conditions.'')
          else (case validatePools e (enforceArray v) of
                  Some err \<Rightarrow> Inl err
                | None \<Rightarrow>
                    (case findPools e (network q) (enforceArray v) of
                       Inl err \<Rightarrow> Inl err
                     | Inr matchedPools \<Rightarrow>
                         if matchedPools = [] then Inr (q\<lparr>isUnfeasible := True\<rparr>, filters)
                         else Inr (q, filters @ [TermsFilter ''pool'' (map TNum matchedPools)]))))"

text \<open>\<open>addMemoFilter\<close>.\<close>

definition addMemoFilter ::
  "env \<Rightarrow> TxQuery \<Rightarrow> filter list \<Rightarrow> error + TxQuery \<times> filter list" where
  "addMemoFilter e q filters =
     (case params q ''memo'' of
        None \<Rightarrow> Inr (q, filters)
      | Some v \<Rightarrow>
          if \<not> truthy v then Inr (q, filters)
          else if enforceArray v = [] then Inr (q, filters)
          else if length (enforceArray v) > 10
            then Inl (ValidationError ''memo'' ''Too many memo conditions.'')
          else (case fetchMemoIds e (network q) (enforceArray v) of
                  Inl err \<Rightarrow> Inl err
                | Inr memoIds \<Rightarrow>
                    if memoIds = [] then Inr (q\<lparr>isUnfeasible := True\<rparr>, filters)
                    else Inr (q, filters @ [TermsFilter ''memo'' (map TNum memoIds)])))"

section \<open>The search request\<close>

text \<open>\<open>buildQuery\<close>.\<close>

definition buildQuery :: "env \<Rightarrow> TxQuery \<Rightarrow> filter list \<Rightarrow> SearchRequest" where
  "buildQuery e q filters =
     \<lparr>rq_index = opIndex e (network q),
      rq_source = False,
      rq_size = limit q,
      rq_timeout = ''5s'',
      rq_track_total_hits = limit q,
      rq_sort = [(''id'', order q)],
      rq_query = BoolFilter filters,
      rq_fields = [''id'']\<rparr>"

section \<open>Response entries\<close>

text \<open>
  \<open>prepareResponseEntry\<close>. A ledger that is \<open>undefined\<close> (\<open>None\<close>) is replaced by the
  default \<open>{}\<close>, whose \<open>_id\<close> and \<open>ts\<close> are \<open>undefined\<close>.
\<close>

definition prepareResponseEntry ::
  "env \<Rightarrow> ArchiveTx \<Rightarrow> Ledger option \<Rightarrow> bool \<Rightarrow> ResponseEntry" where
  "prepareResponseEntry e tx ledger addPagingToken =
     \<lparr>re_id = idToString (tx_id tx),
      re_hash = bufferToString e ''hex'' (tx_hash tx),
      re_ledger = map_option ledger_key ledger,
      re_ts = map_option ledger_ts ledger,
      re_body = bufferToString e ''base64'' (tx_body tx),
      re_meta = bufferToString e ''base64'' (tx_meta tx),
      re_result = bufferToString e ''base64'' (tx_result tx),
      re_paging_token = (if addPagingToken then Some (idToString (tx_id tx)) else None)\<rparr>"

text \<open>
  \<open>fetchTx\<close>. The result of \<open>fetchLedgers\<close> is destructured as it is returned (the call
  is not awaited), and the key handed to it is the record's \<open>_id\<close>.
\<close>

definition fetchTx :: "env \<Rightarrow> string \<Rightarrow> jsval \<Rightarrow> error + ResponseEntry" where
  "fetchTx e net txIdOrHash =
     (case txIdOrHash of
        JStr s \<Rightarrow>
          if length s > 64 then Inl (ValidationError ''id'' ''Invalid transaction id or hash'')
          else (case validateNetwork e net of
                  Some err \<Rightarrow> Inl err
                | None \<Rightarrow>
                    (case fetchSingleArchiveTransaction e net s of
                       Inl err \<Rightarrow> Inl err
                     | Inr None \<Rightarrow> Inl NotFound
                     | Inr (Some tx) \<Rightarrow>
                         (case destructureFirst (fetchLedgers e net [tx_key tx]) of
                            Inl err \<Rightarrow> Inl err
                          | Inr ledger \<Rightarrow> Inr (prepareResponseEntry e tx ledger False))))
      | _ \<Rightarrow> Inl (ValidationError ''id'' ''Invalid transaction id or hash''))"

section \<open>The pipeline\<close>

text \<open>
  \<open>fetchLedgersInfo\<close>: the distinct high halves of the identifiers (\<open>id >> 32n\<close>), the
  awaited lookup, and the records keyed by their \<open>_id\<close>.
\<close>

definition fetchLedgersInfo :: "env \<Rightarrow> TxQuery \<Rightarrow> int list \<Rightarrow> error + (int \<Rightarrow> Ledger option)" where
  "fetchLedgersInfo e q txIds =
     (let ledgerIds = foldl setAdd [] (map (drop_bit 32) txIds) in
      case await (fetchLedgers e (network q) ledgerIds) of
        Inl err \<Rightarrow> Inl err
      | Inr ledgers \<Rightarrow> Inr (foldl (\<lambda>res ledger. res(ledger_key ledger \<mapsto> ledger)) Map.empty ledgers))"

text \<open>The steps in the order of the \<open>pipeline\<close> array, each on the query and the filters.\<close>

definition onQuery :: "error + TxQuery \<Rightarrow> filter list \<Rightarrow> error + TxQuery \<times> filter list" where
  "onQuery r filters = (case r of Inl err \<Rightarrow> Inl err | Inr q \<Rightarrow> Inr (q, filters))"

definition onFilters :: "TxQuery \<Rightarrow> error + filter list \<Rightarrow> error + TxQuery \<times> filter list" where
  "onFilters q r = (case r of Inl err \<Rightarrow> Inl err | Inr filters \<Rightarrow> Inr (q, filters))"

definition pipeline ::
  "env \<Rightarrow> (TxQuery \<Rightarrow> filter list \<Rightarrow> error + TxQuery \<times> filter list) list" where
  "pipeline e =
     [\<lambda>q filters. onQuery (addCursorFilter q) filters,
      \<lambda>q filters. onQuery (addTsFilter e q) filters,
      \<lambda>q filters. Inr (addIdRangeFilter q filters),
      \<lambda>q filters. onFilters q (addTypesFilter q filters),
      addAccountFilter e,
      addAssetFilter e,
      \<lambda>q filters. onFilters q (addOfferFilter e q filters),
      addPoolFilter e,
      addMemoFilter e]"

text \<open>
  The loop of \<open>fetchData\<close> over the steps: a failure ends it, and so does the flag once
  a step has run (the caller then returns the empty list).
\<close>

fun runPipeline ::
  "(TxQuery \<Rightarrow> filter list \<Rightarrow> error + TxQuery \<times> filter list) list \<Rightarrow> TxQuery \<Rightarrow> filter list
     \<Rightarrow> error + TxQuery \<times> filter list"
where
  "runPipeline [] q filters = Inr (q, filters)"
| "runPipeline (step # rest) q filters =
     (case step q filters of
        Inl err \<Rightarrow> Inl err
      | Inr (q', filters') \<Rightarrow>
          if isUnfeasible q' then Inr (q', filters') else runPipeline rest q' filters')"

text \<open>
  \<open>fetchData\<close>. The first component lists the requests handed to \<open>elastic.search\<close>, in
  order; the second is the failure thrown or the query object as the steps left it with
  the records returned. Each record is merged with \<open>ledgers[tx.id.high]\<close>. The two
  fetches after the search are awaited together (when both fail, the model reports the
  archive's failure).
\<close>

definition fetchData ::
  "env \<Rightarrow> TxQuery \<Rightarrow> SearchRequest list \<times> (error + TxQuery \<times> ResponseEntry list)" where
  "fetchData e q =
     (case runPipeline (pipeline e) q [] of
        Inl err \<Rightarrow> ([], Inl err)
      | Inr (q', filters) \<Rightarrow>
          if isUnfeasible q' then ([], Inr (q', []))
          else
            (let queryRequest = buildQuery e q' filters in
             case search e queryRequest of
               Inl err \<Rightarrow> ([queryRequest], Inl err)
             | Inr hits \<Rightarrow>
                 (case those (map StringToBigInt hits) of
                    None \<Rightarrow> ([queryRequest], Inl SyntaxError)
                  | Some ids \<Rightarrow>
                      if ids = [] then ([queryRequest], Inr (q', []))
                      else
                        (case fetchArchiveTransactions e (network q') ids
                                (normalizeOrder e (order q')) of
                           Inl err \<Rightarrow> ([queryRequest], Inl err)
                         | Inr transactions \<Rightarrow>
                             (case fetchLedgersInfo e q' ids of
                                Inl err \<Rightarrow> ([queryRequest], Inl err)
                              | Inr ledgers \<Rightarrow>
                                  ([queryRequest],
                                   Inr (q', map (\<lambda>tx. prepareResponseEntry e tx
                                                  (ledgers (idHigh (tx_id tx))) True)
                                              transactions)))))))"

section \<open>The paged response\<close>

text \<open>
  \<open>preparePagedData\<close> is external; its result is represented by the arguments of the
  call. The second argument is the object \<open>{sort: 'id', order, cursor, limit,
  ...params}\<close>: of its first four keys only \<open>sort\<close> can be among the parameters, which
  are spread last.
\<close>

record PagingQuery =
  pg_sort :: jsval
  pg_order :: string
  pg_cursor :: "jsval option"
  pg_limit :: nat
  pg_params :: "string \<Rightarrow> jsval option"

datatype MultiRows = PagedData string PagingQuery "ResponseEntry list"

definition pagingQuery :: "TxQuery \<Rightarrow> PagingQuery" where
  "pagingQuery q =
     \<lparr>pg_sort = (case params q ''sort'' of None \<Rightarrow> JStr ''id'' | Some v \<Rightarrow> v),
      pg_order = order q, pg_cursor = cursor q, pg_limit = limit q, pg_params = params q\<rparr>"

definition emptyResponse :: "TxQuery \<Rightarrow> MultiRows" where
  "emptyResponse q = PagedData (basePath q) (pagingQuery q) []"

text \<open>\<open>toArray\<close>, with the requests handed to the search index as first component.\<close>

definition toArray :: "env \<Rightarrow> TxQuery \<Rightarrow> SearchRequest list \<times> (error + MultiRows)" where
  "toArray e q =
     (if isUnfeasible q \<or> constraintsUnfeasible (constraints q) then ([], Inr (emptyResponse q))
      else (case fetchData e q of
              (requests, Inl err) \<Rightarrow> (requests, Inl err)
            | (requests, Inr (q', records)) \<Rightarrow>
                (requests, Inr (PagedData (basePath q') (pagingQuery q') records))))"

section \<open>Notions used by the properties\<close>

text \<open>
  What no step changes: the request a query object was built from. Only the constraints
  and the flag are written after construction.
\<close>

definition sameRequest :: "TxQuery \<Rightarrow> TxQuery \<Rightarrow> bool" where
  "sameRequest q q' =
     (network q' = network q \<and> basePath q' = basePath q \<and> cursor q' = cursor q \<and>
      order q' = order q \<and> limit q' = limit q \<and> params q' = params q)"

text \<open>A step that leaves the request as it was, whenever it returns.\<close>

definition framed :: "(TxQuery \<Rightarrow> filter list \<Rightarrow> error + TxQuery \<times> filter list) \<Rightarrow> bool" where
  "framed step = (\<forall>q f q' f'. step q f = Inr (q', f') \<longrightarrow> sameRequest q q')"

text \<open>
  A filter whose supplied values resolve to no internal identifier: the parameter is
  supplied and the lookup of its values answers with the empty list.
\<close>

definition accountsUnmatched :: "env \<Rightarrow> TxQuery \<Rightarrow> string \<Rightarrow> bool" where
  "accountsUnmatched e q param =
     (case params q param of
        None \<Rightarrow> False
      | Some a \<Rightarrow> truthy a \<and> enforceArray a \<noteq> [] \<and>
          findAccounts e (network q) (enforceArray a) = Inr [])"

definition assetsUnmatched :: "env \<Rightarrow> TxQuery \<Rightarrow> string \<Rightarrow> bool" where
  "assetsUnmatched e q param =
     (case params q param of
        None \<Rightarrow> False
      | Some a \<Rightarrow> truthy a \<and> enforceArray a \<noteq> [] \<and>
          (case those (map (toFQAN e) (enforceArray a)) of
             None \<Rightarrow> False
           | Some assets \<Rightarrow> findAssets e (network q) assets = Inr []))"

definition poolsUnmatched :: "env \<Rightarrow> TxQuery \<Rightarrow> bool" where
  "poolsUnmatched e q =
     (case params q ''pool'' of
        None \<Rightarrow> False
      | Some v \<Rightarrow> truthy v \<and> findPools e (network q) (enforceArray v) = Inr [])"

definition memosUnmatched :: "env \<Rightarrow> TxQuery \<Rightarrow> bool" where
  "memosUnmatched e q =
     (case params q ''memo'' of
        None \<Rightarrow> False
      | Some v \<Rightarrow> truthy v \<and> enforceArray v \<noteq> [] \<and>
          fetchMemoIds e (network q) (enforceArray v) = Inr [])"

text \<open>
  The steps that look identifiers up, with their positions in the \<open>pipeline\<close> array
  (counted from 0), and what it means that the filter of a step is unmatched.
\<close>

datatype lookupStep = AccountStep | AssetStep | PoolStep | MemoStep

fun stepIndex :: "lookupStep \<Rightarrow> nat" where
  "stepIndex AccountStep = 4"
| "stepIndex AssetStep = 5"
| "stepIndex PoolStep = 7"
| "stepIndex MemoStep = 8"

fun unmatchedAt :: "env \<Rightarrow> TxQuery \<Rightarrow> lookupStep \<Rightarrow> bool" where
  "unmatchedAt e q AccountStep =
     list_ex (accountsUnmatched e q) [''account'', ''source'', ''destination'']"
| "unmatchedAt e q AssetStep =
     list_ex (assetsUnmatched e q) [''asset'', ''src_asset'', ''dest_asset'']"
| "unmatchedAt e q PoolStep = poolsUnmatched e q"
| "unmatchedAt e q MemoStep = memosUnmatched e q"

text \<open>
  A type value the step refuses: a number outside 0..23; an array or an object; or a
  string that is not a key written in the taxonomy table, is not one of the twelve
  member names inherited from \<open>Object.prototype\<close>, and whose \<open>parseInt\<close> is \<open>NaN\<close>
  or outside 0..23.
\<close>

fun refusedType :: "jsval \<Rightarrow> bool" where
  "refusedType (JStr s) =
     (map_of typeMappingOwn s = None \<and> s \<notin> set objectPrototypeKeys \<and>
      (case parseInt s of None \<Rightarrow> True | Some n \<Rightarrow> \<not> (0 \<le> n \<and> n \<le> 23)))"
| "refusedType (JNum n) = (\<not> (0 \<le> n \<and> n \<le> 23))"
| "refusedType (JArr xs) = True"
| "refusedType JObj = True"

section \<open>A sample environment\<close>

text \<open>
  One network (\<open>public\<close>), one known account (\<open>GA\<close>; \<open>GB\<close> is well-formed but
  unknown), one known asset, no pools and no memos; a ledger every five seconds; an
  archive with one transaction, the first of ledger 5, whose \<open>_id\<close> is its identifier;
  and a ledger store with ledger 5, queried asynchronously.
\<close>

definition sampleTx :: ArchiveTx where
  "sampleTx =
     \<lparr>tx_id = 21474836481, tx_key = 21474836481, tx_hash = ''h'', tx_body = ''b'',
      tx_meta = ''m'', tx_result = ''r''\<rparr>"

definition sampleLedger :: Ledger where
  "sampleLedger = \<lparr>ledger_key = 5, ledger_ts = 1700000000\<rparr>"

definition ledgerStore :: "int list \<Rightarrow> Ledger list" where
  "ledgerStore keys = filter (\<lambda>l. ledger_key l \<in> set keys) [sampleLedger]"

definition sampleEnv :: env where
  "sampleEnv =
     \<lparr>validateNetwork =
        (\<lambda>n. if n = ''public'' then None
              else Some (ValidationError ''network'' ''Unknown network'')),
      normalizeLimit = (\<lambda>v. 10),
      normalizeOrder = (\<lambda>ord. if ord = ''asc'' then 1 else - 1),
      opIndex = (\<lambda>n. ''op-index''),
      resolveSequenceFromTimestamp =
        (\<lambda>n t. case t of None \<Rightarrow> Inl (Failure ''timestamp'') | Some ts \<Rightarrow> Inr (ts div 5)),
      isValidEd25519PublicKey = (\<lambda>v. v = JStr ''GA'' \<or> v = JStr ''GB''),
      findAccounts = (\<lambda>n vs. Inr (if JStr ''GA'' \<in> set vs then [1] else [])),
      toFQAN = (\<lambda>v. case v of JStr s \<Rightarrow> Some s | _ \<Rightarrow> None),
      findAssets = (\<lambda>n names. Inr (if ''XLM'' \<in> set names then [0] else [])),
      validateOfferId =
        (\<lambda>v field. case v of
            JStr s \<Rightarrow> if parseDigits 10 s = None
                      then Inl (ValidationError field ''Invalid offer id'') else Inr s
          | _ \<Rightarrow> Inl (ValidationError field ''Invalid offer id'')),
      validatePoolId = (\<lambda>v. None),
      findPools = (\<lambda>n vs. Inr []),
      fetchMemoIds = (\<lambda>n vs. Inr []),
      search = (\<lambda>r. Inr []),
      fetchArchiveTransactions = (\<lambda>n ids ord. Inr []),
      fetchSingleArchiveTransaction =
        (\<lambda>n s. if s = ''21474836481'' then Inr (Some sampleTx) else Inr None),
      fetchLedgers = (\<lambda>n keys. Promise (Inr (ledgerStore keys))),
      bufferToString = (\<lambda>encoding b. b)\<rparr>"

text \<open>The query object the constructor builds on the sample network.\<close>

definition sampleQuery :: "string \<Rightarrow> jsval option \<Rightarrow> (string \<Rightarrow> jsval option) \<Rightarrow> TxQuery" where
  "sampleQuery ord cur ps =
     \<lparr>network = ''public'', basePath = ''/tx'', cursor = cur, order = ord, limit = 10,
      constraints = newIdConstraints, params = ps, isUnfeasible = False\<rparr>"

section \<open>Properties\<close>

lemmas parse_defs = StringToBigInt_def trimString_def isWhiteSpace_def parseDigits_def
  isDigitIn_def digitValue_def digitsValue_def digitNat_def parseInt_def BigInt_def

lemmas taxonomy_defs = typeMapping_def typeMappingOwn_def objectPrototypeKeys_def

subsection \<open>The request is fixed at construction\<close>

lemma sameRequest_refl: "sameRequest q q"
  by (simp add: sameRequest_def)

lemma sameRequest_trans: "sameRequest a b \<Longrightarrow> sameRequest b c \<Longrightarrow> sameRequest a c"
  by (simp add: sameRequest_def)

lemma sameRequest_flag: "sameRequest q (q\<lparr>isUnfeasible := b\<rparr>)"
  by (simp add: sameRequest_def)

lemma sameRequest_constraints: "sameRequest q (q\<lparr>constraints := c\<rparr>)"
  by (simp add: sameRequest_def)

lemma addCursorFilter_frame: "addCursorFilter q = Inr q' \<Longrightarrow> sameRequest q q'"
  by (auto simp: addCursorFilter_def sameRequest_def split: option.splits if_splits)

lemma addTsFilter_frame: "addTsFilter e q = Inr q' \<Longrightarrow> sameRequest q q'"
  by (auto simp: addTsFilter_def sameRequest_def Let_def split: option.splits sum.splits)

lemma addIdRangeFilter_frame: "addIdRangeFilter q f = (q', f') \<Longrightarrow> sameRequest q q'"
  by (auto simp: addIdRangeFilter_def sameRequest_def split: if_splits)

lemma accountRoles_frame: "accountRoles e roles q f = Inr (q', f') \<Longrightarrow> sameRequest q q'"
proof (induction e roles q f rule: accountRoles.induct)
  case (1 e q filters)
  then show ?case by (simp add: sameRequest_refl)
next
  case (2 e param key rest q filters)
  show ?case
  proof (cases "params q param")
    case None
    with 2 show ?thesis by simp
  next
    case (Some a)
    with 2 show ?thesis
      by (auto split: if_splits sum.splits
          intro: sameRequest_trans [OF sameRequest_flag])
  qed
qed

lemma assetRoles_frame: "assetRoles e roles q f = Inr (q', f') \<Longrightarrow> sameRequest q q'"
proof (induction e roles q f rule: assetRoles.induct)
  case (1 e q filters)
  then show ?case by (simp add: sameRequest_refl)
next
  case (2 e param key rest q filters)
  show ?case
  proof (cases "params q param")
    case None
    with 2 show ?thesis by simp
  next
    case (Some a)
    with 2 show ?thesis
      by (auto split: if_splits sum.splits option.splits
          intro: sameRequest_trans [OF sameRequest_flag])
  qed
qed

lemma addPoolFilter_frame: "addPoolFilter e q f = Inr (q', f') \<Longrightarrow> sameRequest q q'"
  by (auto simp: addPoolFilter_def sameRequest_def split: option.splits if_splits sum.splits)

lemma addMemoFilter_frame: "addMemoFilter e q f = Inr (q', f') \<Longrightarrow> sameRequest q q'"
  by (auto simp: addMemoFilter_def sameRequest_def split: option.splits if_splits sum.splits)

lemma addAccountFilter_frame: "addAccountFilter e q f = Inr (q', f') \<Longrightarrow> sameRequest q q'"
  unfolding addAccountFilter_def by (rule accountRoles_frame)

lemma addAssetFilter_frame: "addAssetFilter e q f = Inr (q', f') \<Longrightarrow> sameRequest q q'"
  unfolding addAssetFilter_def by (rule assetRoles_frame)

lemma onQuery_frame:
  "(\<And>q'. r = Inr q' \<Longrightarrow> sameRequest q q') \<Longrightarrow> onQuery r f = Inr (q', f') \<Longrightarrow> sameRequest q q'"
  by (auto simp: onQuery_def split: sum.splits)

lemma onFilters_frame: "onFilters q r = Inr (q', f') \<Longrightarrow> sameRequest q q'"
  by (auto simp: onFilters_def sameRequest_refl split: sum.splits)

lemma pipeline_framed: "s \<in> set (pipeline e) \<Longrightarrow> framed s"
proof -
  assume "s \<in> set (pipeline e)"
  then consider
      "s = (\<lambda>q filters. onQuery (addCursorFilter q) filters)"
    | "s = (\<lambda>q filters. onQuery (addTsFilter e q) filters)"
    | "s = (\<lambda>q filters. Inr (addIdRangeFilter q filters))"
    | "s = (\<lambda>q filters. onFilters q (addTypesFilter q filters))"
    | "s = addAccountFilter e"
    | "s = addAssetFilter e"
    | "s = (\<lambda>q filters. onFilters q (addOfferFilter e q filters))"
    | "s = addPoolFilter e"
    | "s = addMemoFilter e"
    unfolding pipeline_def by auto
  then show "framed s"
  proof cases
    case 1
    then show ?thesis
      unfolding framed_def by (blast intro: onQuery_frame addCursorFilter_frame)
  next
    case 2
    then show ?thesis
      unfolding framed_def by (blast intro: onQuery_frame addTsFilter_frame)
  next
    case 3
    then show ?thesis
      unfolding framed_def by (auto dest: addIdRangeFilter_frame)
  next
    case 4
    then show ?thesis
      unfolding framed_def by (blast intro: onFilters_frame)
  next
    case 5
    then show ?thesis
      unfolding framed_def by (blast intro: addAccountFilter_frame)
  next
    case 6
    then show ?thesis
      unfolding framed_def by (blast intro: addAssetFilter_frame)
  next
    case 7
    then show ?thesis
      unfolding framed_def by (blast intro: onFilters_frame)
  next
    case 8
    then show ?thesis
      unfolding framed_def by (blast intro: addPoolFilter_frame)
  next
    case 9
    then show ?thesis
      unfolding framed_def by (blast intro: addMemoFilter_frame)
  qed
qed

lemma runPipeline_frame:
  "\<forall>s\<in>set steps. framed s \<Longrightarrow> runPipeline steps q f = Inr (q', f') \<Longrightarrow> sameRequest q q'"
proof (induction steps arbitrary: q f)
  case Nil
  then show ?case by (simp add: sameRequest_refl)
next
  case (Cons step rest)
  from Cons.prems(2) obtain qa fa where st: "step q f = Inr (qa, fa)"
    by (auto split: sum.splits)
  from Cons.prems(1) st have fr: "sameRequest q qa"
    by (auto simp: framed_def)
  show ?case
  proof (cases "isUnfeasible qa")
    case True
    with Cons.prems(2) st fr show ?thesis by simp
  next
    case False
    with Cons.prems(2) st have "runPipeline rest qa fa = Inr (q', f')" by simp
    with Cons.IH Cons.prems(1) have "sameRequest qa q'" by simp
    with fr show ?thesis by (rule sameRequest_trans)
  qed
qed

lemma runPipeline_ran:
  "\<forall>s\<in>set steps. framed s \<Longrightarrow> runPipeline steps q f = Inr (q', f') \<Longrightarrow> \<not> isUnfeasible q' \<Longrightarrow>
   s \<in> set steps \<Longrightarrow>
   \<exists>q1 f1 q2 f2. sameRequest q q1 \<and> s q1 f1 = Inr (q2, f2) \<and> \<not> isUnfeasible q2"
proof (induction steps arbitrary: q f)
  case Nil
  then show ?case by simp
next
  case (Cons step rest)
  from Cons.prems(2) obtain qa fa where st: "step q f = Inr (qa, fa)"
    by (auto split: sum.splits)
  from Cons.prems(1) st have fr: "sameRequest q qa"
    by (auto simp: framed_def)
  have feas: "\<not> isUnfeasible qa"
    using Cons.prems(2,3) st by (auto split: if_splits)
  with Cons.prems(2) st have run: "runPipeline rest qa fa = Inr (q', f')" by simp
  show ?case
  proof (cases "s = step")
    case True
    with st feas sameRequest_refl show ?thesis by blast
  next
    case False
    with Cons.prems(4) have "s \<in> set rest" by simp
    with Cons.IH [OF _ run Cons.prems(3)] Cons.prems(1)
    obtain q1 f1 q2 f2 where "sameRequest qa q1" "s q1 f1 = Inr (q2, f2)" "\<not> isUnfeasible q2"
      by auto
    with fr show ?thesis by (blast intro: sameRequest_trans)
  qed
qed

lemma accountsUnmatched_cong: "sameRequest q q1 \<Longrightarrow> accountsUnmatched e q1 p = accountsUnmatched e q p"
  by (auto simp: accountsUnmatched_def sameRequest_def split: option.splits)

lemma assetsUnmatched_cong: "sameRequest q q1 \<Longrightarrow> assetsUnmatched e q1 p = assetsUnmatched e q p"
  by (auto simp: assetsUnmatched_def sameRequest_def split: option.splits)

lemma accountRoles_flag:
  "accountRoles e roles q f = Inr (q', f') \<Longrightarrow>
   isUnfeasible q \<or> list_ex (accountsUnmatched e q) (map fst roles) \<Longrightarrow> isUnfeasible q'"
proof (induction e roles q f rule: accountRoles.induct)
  case (1 e q filters)
  then show ?case by simp
next
  case (2 e param key rest q filters)
  have cong: "\<And>b p. accountsUnmatched e (q\<lparr>isUnfeasible := b\<rparr>) p = accountsUnmatched e q p"
    by (auto simp: accountsUnmatched_def split: option.splits)
  show ?case
  proof (cases "params q param")
    case None
    with 2 show ?thesis by (auto simp: accountsUnmatched_def)
  next
    case (Some a)
    with 2 show ?thesis
      by (auto simp: cong split: if_splits sum.splits)
         (auto simp: accountsUnmatched_def)
  qed
qed

subsection \<open>An unmatched filter sets the flag\<close>

lemma assetRoles_flag:
  "assetRoles e roles q f = Inr (q', f') \<Longrightarrow>
   isUnfeasible q \<or> list_ex (assetsUnmatched e q) (map fst roles) \<Longrightarrow> isUnfeasible q'"
proof (induction e roles q f rule: assetRoles.induct)
  case (1 e q filters)
  then show ?case by simp
next
  case (2 e param key rest q filters)
  have cong: "\<And>b p. assetsUnmatched e (q\<lparr>isUnfeasible := b\<rparr>) p = assetsUnmatched e q p"
    by (auto simp: assetsUnmatched_def split: option.splits)
  show ?case
  proof (cases "params q param")
    case None
    with 2 show ?thesis by (auto simp: assetsUnmatched_def)
  next
    case (Some a)
    with 2 show ?thesis
      by (auto simp: cong split: if_splits sum.splits option.splits)
         (auto simp: assetsUnmatched_def)
  qed
qed

lemma addPoolFilter_flag:
  "addPoolFilter e q f = Inr (q', f') \<Longrightarrow> poolsUnmatched e q \<Longrightarrow> isUnfeasible q'"
  by (auto simp: addPoolFilter_def poolsUnmatched_def split: option.splits if_splits sum.splits)

lemma addMemoFilter_flag:
  "addMemoFilter e q f = Inr (q', f') \<Longrightarrow> memosUnmatched e q \<Longrightarrow> isUnfeasible q'"
  by (auto simp: addMemoFilter_def memosUnmatched_def split: option.splits if_splits sum.splits)

lemma poolsUnmatched_cong: "sameRequest q q1 \<Longrightarrow> poolsUnmatched e q1 = poolsUnmatched e q"
  by (auto simp: poolsUnmatched_def sameRequest_def split: option.splits)

lemma memosUnmatched_cong: "sameRequest q q1 \<Longrightarrow> memosUnmatched e q1 = memosUnmatched e q"
  by (auto simp: memosUnmatched_def sameRequest_def split: option.splits)

lemma unmatched_step_flag:
  assumes un: "unmatchedAt e q k" and same: "sameRequest q q1"
    and st: "(pipeline e ! stepIndex k) q1 f1 = Inr (q2, f2)"
  shows "isUnfeasible q2"
proof (cases k)
  case AccountStep
  with un same have u: "isUnfeasible q1 \<or> list_ex (accountsUnmatched e q1)
      (map fst [(''account'', ''accounts''), (''source'', ''source''),
                (''destination'', ''destination'')])"
    by (simp add: accountsUnmatched_cong)
  from st AccountStep have "accountRoles e [(''account'', ''accounts''), (''source'', ''source''),
      (''destination'', ''destination'')] q1 f1 = Inr (q2, f2)"
    by (simp add: pipeline_def addAccountFilter_def del: accountRoles.simps)
  from this u show ?thesis by (rule accountRoles_flag)
next
  case AssetStep
  with un same have u: "isUnfeasible q1 \<or> list_ex (assetsUnmatched e q1)
      (map fst [(''asset'', ''assets''), (''src_asset'', ''srcAsset''),
                (''dest_asset'', ''desAsset'')])"
    by (simp add: assetsUnmatched_cong)
  from st AssetStep have "assetRoles e [(''asset'', ''assets''), (''src_asset'', ''srcAsset''),
      (''dest_asset'', ''desAsset'')] q1 f1 = Inr (q2, f2)"
    by (simp add: pipeline_def addAssetFilter_def del: assetRoles.simps)
  from this u show ?thesis by (rule assetRoles_flag)
next
  case PoolStep
  with un same have "poolsUnmatched e q1" by (simp add: poolsUnmatched_cong)
  moreover from st PoolStep have "addPoolFilter e q1 f1 = Inr (q2, f2)"
    by (simp add: pipeline_def)
  ultimately show ?thesis by (blast intro: addPoolFilter_flag)
next
  case MemoStep
  with un same have "memosUnmatched e q1" by (simp add: memosUnmatched_cong)
  moreover from st MemoStep have "addMemoFilter e q1 f1 = Inr (q2, f2)"
    by (simp add: pipeline_def)
  ultimately show ?thesis by (blast intro: addMemoFilter_flag)
qed

lemma runPipeline_append_failure:
  "runPipeline xs q f = Inl err \<Longrightarrow> runPipeline (xs @ ys) q f = Inl err"
proof (induction xs arbitrary: q f)
  case Nil
  then show ?case by simp
next
  case (Cons step rest)
  then show ?case by (auto split: sum.splits prod.splits if_splits)
qed

lemma runPipeline_append_stop:
  "xs \<noteq> [] \<Longrightarrow> runPipeline xs q f = Inr (q1, f1) \<Longrightarrow> isUnfeasible q1 \<Longrightarrow>
   runPipeline (xs @ ys) q f = Inr (q1, f1)"
proof (induction xs arbitrary: q f)
  case Nil
  then show ?case by simp
next
  case (Cons step rest)
  from Cons.prems(2) obtain qa fa where st: "step q f = Inr (qa, fa)"
    by (auto split: sum.splits)
  show ?case
  proof (cases "isUnfeasible qa")
    case True
    with Cons.prems(2) st show ?thesis by simp
  next
    case False
    with Cons.prems(2) st have run: "runPipeline rest qa fa = Inr (q1, f1)" by simp
    with False Cons.prems(3) have "rest \<noteq> []" by auto
    from Cons.IH [OF this run Cons.prems(3)] st False show ?thesis by simp
  qed
qed

lemma stepIndex_bound: "stepIndex k < length (pipeline e)"
  by (cases k) (simp_all add: pipeline_def)

lemma emptyResponse_cong: "sameRequest q q' \<Longrightarrow> emptyResponse q' = emptyResponse q"
  by (simp add: emptyResponse_def pagingQuery_def sameRequest_def)

subsection \<open>Refused type values; the shift on 64 bits\<close>

lemma typeMapping_None_iff:
  "typeMapping s = None \<longleftrightarrow> map_of typeMappingOwn s = None \<and> s \<notin> set objectPrototypeKeys"
  by (simp add: typeMapping_def split: option.splits)

lemma refusedType_JStr:
  "refusedType (JStr s) \<Longrightarrow>
     typeMapping s = None \<and>
     (case parseInt s of None \<Rightarrow> True | Some n \<Rightarrow> \<not> (0 \<le> n \<and> n \<le> 23))"
  by (simp add: typeMapping_None_iff)

lemma typesLoop_refused:
  "list_ex refusedType vs \<Longrightarrow> \<exists>m. typesLoop vs acc = Inl (ValidationError ''type'' m)"
proof (induction vs acc rule: typesLoop.induct)
  case (1 searchTypes)
  then show ?case by simp
next
  case (2 s rest searchTypes)
  show ?case
  proof (cases "refusedType (JStr s)")
    case True
    from refusedType_JStr [OF this] show ?thesis
      by (auto split: option.splits)
  next
    case False
    with 2 show ?thesis
      by (auto simp del: refusedType.simps split: option.splits mapped.splits)
  qed
next
  case (3 n rest searchTypes)
  then show ?case by auto
qed simp_all

lemma shift_word: "push_bit 32 (toUint32 n) = uint (push_bit 32 (word_of_int n :: 64 word))"
proof -
  have "uint (push_bit 32 (word_of_int n :: 64 word)) = take_bit 64 (push_bit 32 (take_bit 64 n))"
    by (simp add: unsigned_push_bit_eq uint_word_of_int_eq)
  also have "\<dots> = push_bit 32 (take_bit 32 n)"
    by (simp add: take_bit_push_bit)
  also have "\<dots> = push_bit 32 (toUint32 n)"
    by (simp add: toUint32_def take_bit_eq_mod)
  finally show ?thesis by simp
qed

lemma shift_plain: "0 \<le> n \<Longrightarrow> n < 2 ^ 32 \<Longrightarrow> push_bit 32 (toUint32 n) = n * 2 ^ 32"
  by (simp add: toUint32_def push_bit_eq_mult)

section \<open>The claims\<close>

subsection \<open>Single-record lookup\<close>

text \<open>
  Whenever the archive holds the transaction and the ledger store answers with a promise,
  the destructuring in \<open>fetchTx\<close> throws: no response entry is returned.
\<close>

lemma fetchTx_promise:
  assumes "length s \<le> 64" "validateNetwork e net = None"
    and "fetchSingleArchiveTransaction e net s = Inr (Some tx)"
    and "fetchLedgers e net [tx_key tx] = Promise r"
  shows "fetchTx e net (JStr s) = Inl TypeError"
  using assms by (simp add: fetchTx_def)

text \<open>
  Were the lookup synchronous, the entry would carry the timestamp of the first record
  returned for the key \<open>_id\<close> of the transaction (none when the list is empty), and no
  paging token.
\<close>

lemma fetchTx_direct:
  assumes "length s \<le> 64" "validateNetwork e net = None"
    and "fetchSingleArchiveTransaction e net s = Inr (Some tx)"
    and "fetchLedgers e net [tx_key tx] = Direct ledgers"
  shows "\<exists>entry. fetchTx e net (JStr s) = Inr entry
           \<and> re_ts entry = (case ledgers of [] \<Rightarrow> None | l # _ \<Rightarrow> Some (ledger_ts l))
           \<and> re_paging_token entry = None"
  using assms by (cases ledgers) (simp_all add: fetchTx_def prepareResponseEntry_def)

text \<open>
  Claim C1. For every transaction present in the archive store, \<open>fetchTx\<close> fetches the
  metadata record of the transaction's ledger, keyed by the ledger sequence number, and
  returns an entry whose \<open>ts\<close> is that ledger's timestamp and that has no paging token.
  The code does not do this. In the sample environment the archive holds transaction
  21474836481 (ledger 5) and the ledger store holds ledger 5 with timestamp 1700000000:
  the lookup ends in a \<open>TypeError\<close>, because the promise of \<open>fetchLedgers\<close> is
  destructured without \<open>await\<close>; and with a synchronous store the entry has no
  timestamp, because the store is asked for the key 21474836481 and not for the
  sequence 5. The list path awaits the same call and keys it by the high half of the
  identifier.
\<close>

theorem fetchTx_sample_divergence:
  "fetchSingleArchiveTransaction sampleEnv ''public'' ''21474836481'' = Inr (Some sampleTx)
   \<and> ledgerStore [drop_bit 32 (tx_id sampleTx)] = [sampleLedger]
   \<and> re_ts (prepareResponseEntry sampleEnv sampleTx (Some sampleLedger) False) = Some 1700000000
   \<and> fetchTx sampleEnv ''public'' (JStr ''21474836481'') = Inl TypeError
   \<and> map_sum id re_ts
        (fetchTx (sampleEnv\<lparr>fetchLedgers := (\<lambda>n keys. Direct (ledgerStore keys))\<rparr>)
           ''public'' (JStr ''21474836481'')) = Inr None"
  by (simp add: fetchTx_def sampleEnv_def sampleTx_def ledgerStore_def sampleLedger_def
      prepareResponseEntry_def drop_bit_eq_div)

subsection \<open>Unmatched filters\<close>

text \<open>
  Claim C2, as stated: whenever an account, asset, pool or memo filter resolves its values
  to no identifier, the query yields the empty paged envelope, the search is never
  invoked and no failure is raised. This fails: in the sample environment the account
  \<open>GB\<close> is well-formed and unknown, so the role \<open>account\<close> resolves to nothing; the
  loop goes on to the role \<open>source\<close>, whose value \<open>XX\<close> is no address, and the
  validation failure of \<open>source\<close> reaches the caller.
\<close>

theorem unmatched_account_counterexample:
  "accountsUnmatched sampleEnv
     (sampleQuery ''desc'' None [''account'' \<mapsto> JStr ''GB'', ''source'' \<mapsto> JStr ''XX''])
     ''account''
   \<and> findAccounts sampleEnv ''public'' [JStr ''GB''] = Inr []
   \<and> toArray sampleEnv
       (sampleQuery ''desc'' None [''account'' \<mapsto> JStr ''GB'', ''source'' \<mapsto> JStr ''XX''])
     = ([], Inl (ValidationError ''source'' ''Invalid account address''))"
  by (simp add: accountsUnmatched_def toArray_def fetchData_def pipeline_def sampleQuery_def
      sampleEnv_def addCursorFilter_def addTsFilter_def resolveParam_def addIdRangeFilter_def
      addTypesFilter_def addAccountFilter_def onQuery_def onFilters_def newIdConstraints_def
      isEmpty_def constraintsUnfeasible_def)

text \<open>
  Claim C2, amended: whenever the filter of an account, asset, pool or memo step resolves
  its supplied values to no identifier, the search is never invoked, and the query
  yields the standard empty paged envelope unless a step of the pipeline up to and
  including that step raises a failure, which then reaches the caller.
\<close>

theorem unmatched_filter_empty_response:
  assumes un: "unmatchedAt e q k"
  shows "fst (toArray e q) = [] \<and>
         (snd (toArray e q) = Inr (emptyResponse q) \<or>
          (\<exists>err. runPipeline (take (Suc (stepIndex k)) (pipeline e)) q [] = Inl err
                 \<and> snd (toArray e q) = Inl err))"
proof (cases "isUnfeasible q \<or> constraintsUnfeasible (constraints q)")
  case True
  then show ?thesis by (simp add: toArray_def)
next
  case False
  let ?pre = "take (Suc (stepIndex k)) (pipeline e)"
  let ?post = "drop (Suc (stepIndex k)) (pipeline e)"
  have whole: "pipeline e = ?pre @ ?post" by simp
  have fr: "\<forall>s\<in>set ?pre. framed s"
    by (blast intro: pipeline_framed dest: in_set_takeD)
  show ?thesis
  proof (cases "runPipeline ?pre q []")
    case (Inl err)
    then have "runPipeline (?pre @ ?post) q [] = Inl err"
      by (rule runPipeline_append_failure)
    with whole have "runPipeline (pipeline e) q [] = Inl err" by simp
    with False Inl show ?thesis by (simp add: toArray_def fetchData_def)
  next
    case (Inr r)
    obtain q1 f1 where "r = (q1, f1)" by (cases r)
    with Inr have run: "runPipeline ?pre q [] = Inr (q1, f1)" by simp
    have flag: "isUnfeasible q1"
    proof (rule ccontr)
      assume feas: "\<not> isUnfeasible q1"
      have "pipeline e ! stepIndex k \<in> set ?pre"
        using stepIndex_bound [of k e] by (auto simp: in_set_conv_nth intro!: exI [of _ "stepIndex k"])
      from runPipeline_ran [OF fr run feas this] obtain qa fa qb fb where
        s: "sameRequest q qa" "(pipeline e ! stepIndex k) qa fa = Inr (qb, fb)"
          "\<not> isUnfeasible qb"
        by blast
      from unmatched_step_flag [OF un s(1) s(2)] s(3) show False by simp
    qed
    have "?pre \<noteq> []" using stepIndex_bound [of k e] by auto
    from runPipeline_append_stop [OF this run flag, of ?post] whole
    have all: "runPipeline (pipeline e) q [] = Inr (q1, f1)" by simp
    have "sameRequest q q1"
      using runPipeline_frame [OF fr run] .
    then have "emptyResponse q1 = emptyResponse q" by (rule emptyResponse_cong)
    with False all flag show ?thesis
      by (simp add: toArray_def fetchData_def emptyResponse_def)
  qed
qed

theorem unmatched_filter_empty_response_witness:
  "unmatchedAt sampleEnv (sampleQuery ''desc'' None [''account'' \<mapsto> JStr ''GB'']) AccountStep
   \<and> fst (toArray sampleEnv (sampleQuery ''desc'' None [''account'' \<mapsto> JStr ''GB''])) = []
   \<and> snd (toArray sampleEnv (sampleQuery ''desc'' None [''account'' \<mapsto> JStr ''GB'']))
       = Inr (emptyResponse (sampleQuery ''desc'' None [''account'' \<mapsto> JStr ''GB'']))"
proof -
  let ?q = "sampleQuery ''desc'' None [''account'' \<mapsto> JStr ''GB'']"
  have z: "unmatchedAt sampleEnv ?q AccountStep"
    by (simp add: accountsUnmatched_def sampleQuery_def sampleEnv_def)
  have ok: "runPipeline (take (Suc (stepIndex AccountStep)) (pipeline sampleEnv)) ?q []
      = Inr (?q\<lparr>isUnfeasible := True\<rparr>, [])"
    by (simp add: pipeline_def sampleQuery_def sampleEnv_def addCursorFilter_def addTsFilter_def
        resolveParam_def addIdRangeFilter_def addTypesFilter_def addAccountFilter_def
        onQuery_def onFilters_def newIdConstraints_def isEmpty_def constraintsUnfeasible_def)
  from unmatched_filter_empty_response [OF z] ok z show ?thesis by simp
qed

subsection \<open>The type step\<close>

text \<open>
  A member name every object inherits is found by the taxonomy lookup: the step adds the
  member to the set and raises nothing.
\<close>

lemma inherited_member_accepted:
  "addTypesFilter (sampleQuery ''desc'' None [''type'' \<mapsto> JStr ''toString'']) []
     = Inr [TermsFilter ''type'' [TMember ''toString'']]"
  by (simp add: addTypesFilter_def sampleQuery_def taxonomy_defs setAdd_def)

text \<open>A number in 0..23 passes the check of the step as it is.\<close>

lemma number_code_accepted:
  "addTypesFilter (sampleQuery ''desc'' None [''type'' \<mapsto> JArr [JNum 5, JStr ''5'']]) []
     = Inr [TermsFilter ''type'' [TNum 5]]"
  by (simp add: addTypesFilter_def sampleQuery_def parse_defs taxonomy_defs setAdd_def)

text \<open>
  Claim C3, as stated: every supplied type value that is neither a mnemonic of the table
  nor a numeric code in 0..23 makes the step raise a validation failure on \<open>type\<close>.
  This fails: \<open>5abc\<close> and \<open>1e5\<close> are no mnemonics and no codes, yet \<open>parseInt\<close>
  reads the leading digits and the step emits the codes 5 and 1.
\<close>

theorem type_value_counterexample:
  "typeMapping ''5abc'' = None
   \<and> addTypesFilter (sampleQuery ''desc'' None [''type'' \<mapsto> JStr ''5abc'']) []
       = Inr [TermsFilter ''type'' [TNum 5]]
   \<and> typeMapping ''1e5'' = None
   \<and> addTypesFilter (sampleQuery ''desc'' None [''type'' \<mapsto> JStr ''1e5'']) []
       = Inr [TermsFilter ''type'' [TNum 1]]"
  by (simp add: addTypesFilter_def sampleQuery_def parse_defs taxonomy_defs setAdd_def)

text \<open>
  Claim C3, amended: when a type parameter is supplied that is not falsy, the step raises
  a validation failure on \<open>type\<close> if more than 30 values are supplied, or if one of the
  values is refused, that is, it is
  \<^item> a number outside 0..23, or
  \<^item> neither a string nor a number (an array or an object), or
  \<^item> a string that is not a key written in the taxonomy table and whose leading integer,
    as \<open>parseInt\<close> reads it, is missing or outside 0..23, unless the string is one of
    the twelve member names every object inherits (\<open>constructor\<close>, \<open>toString\<close>,
    \<open>valueOf\<close>, \<open>hasOwnProperty\<close>, \<open>isPrototypeOf\<close>, \<open>propertyIsEnumerable\<close>,
    \<open>toLocaleString\<close>, \<open>__proto__\<close>, \<open>__defineGetter__\<close>, \<open>__defineSetter__\<close>,
    \<open>__lookupGetter__\<close>, \<open>__lookupSetter__\<close>): about these names the statement says
    nothing.
\<close>

theorem type_value_refused:
  assumes "params q ''type'' = Some t" "truthy t"
    and "length (enforceArray t) > 30 \<or> list_ex refusedType (enforceArray t)"
  shows "\<exists>m. addTypesFilter q filters = Inl (ValidationError ''type'' m)"
  using assms typesLoop_refused [of "enforceArray t" "[]"]
  by (auto simp: addTypesFilter_def)

theorem type_value_refused_witness:
  "params (sampleQuery ''desc'' None [''type'' \<mapsto> JArr [JStr ''payment'', JNum 5, JStr ''24'']])
       ''type''
     = Some (JArr [JStr ''payment'', JNum 5, JStr ''24''])
   \<and> truthy (JArr [JStr ''payment'', JNum 5, JStr ''24''])
   \<and> refusedType (JStr ''24'') \<and> \<not> refusedType (JNum 5) \<and> \<not> refusedType (JStr ''payment'')
   \<and> refusedType (JNum 24) \<and> refusedType (JNum (- 1)) \<and> refusedType JObj
   \<and> refusedType (JStr ''abc'') \<and> \<not> refusedType (JStr ''toString'')
   \<and> (\<exists>m. addTypesFilter
             (sampleQuery ''desc'' None
                [''type'' \<mapsto> JArr [JStr ''payment'', JNum 5, JStr ''24'']]) []
           = Inl (ValidationError ''type'' m))
   \<and> (\<exists>m. addTypesFilter (sampleQuery ''desc'' None [''type'' \<mapsto> JNum 24]) []
           = Inl (ValidationError ''type'' m))
   \<and> length (enforceArray (JArr (replicate 31 (JStr ''payment'')))) = 31
   \<and> (\<exists>m. addTypesFilter
             (sampleQuery ''desc'' None [''type'' \<mapsto> JArr (replicate 31 (JStr ''payment''))]) []
           = Inl (ValidationError ''type'' m))"
proof -
  let ?t = "JArr [JStr ''payment'', JNum 5, JStr ''24'']"
  let ?q = "sampleQuery ''desc'' None [''type'' \<mapsto> ?t]"
  let ?n = "JNum 24"
  let ?qn = "sampleQuery ''desc'' None [''type'' \<mapsto> ?n]"
  let ?t' = "JArr (replicate 31 (JStr ''payment''))"
  let ?q' = "sampleQuery ''desc'' None [''type'' \<mapsto> ?t']"
  have p: "params ?q ''type'' = Some ?t" by (simp add: sampleQuery_def)
  have t: "truthy ?t" by simp
  have r1: "refusedType (JStr ''24'')" and r2: "\<not> refusedType (JNum 5)"
    and r3: "\<not> refusedType (JStr ''payment'')" and r4: "refusedType (JNum 24)"
    and r5: "refusedType (JNum (- 1))" and r6: "refusedType JObj"
    and r7: "refusedType (JStr ''abc'')" and r8: "\<not> refusedType (JStr ''toString'')"
    by (simp_all add: parse_defs taxonomy_defs)
  from r1 have "length (enforceArray ?t) > 30 \<or> list_ex refusedType (enforceArray ?t)"
    by simp
  from type_value_refused [OF p t this]
  have a: "\<exists>m. addTypesFilter ?q [] = Inl (ValidationError ''type'' m)" .
  have pn: "params ?qn ''type'' = Some ?n" by (simp add: sampleQuery_def)
  have tn: "truthy ?n" by simp
  from r4 have "length (enforceArray ?n) > 30 \<or> list_ex refusedType (enforceArray ?n)"
    by simp
  from type_value_refused [OF pn tn this]
  have c: "\<exists>m. addTypesFilter ?qn [] = Inl (ValidationError ''type'' m)" .
  have p': "params ?q' ''type'' = Some ?t'" by (simp add: sampleQuery_def)
  have t': "truthy ?t'" by simp
  have l: "length (enforceArray ?t') = 31" by simp
  then have "length (enforceArray ?t') > 30 \<or> list_ex refusedType (enforceArray ?t')" by simp
  from type_value_refused [OF p' t' this]
  have b: "\<exists>m. addTypesFilter ?q' [] = Inl (ValidationError ''type'' m)" .
  from p t r1 r2 r3 r4 r5 r6 r7 r8 a c l b show ?thesis by blast
qed

text \<open>
  Claim C5. The mnemonic \<open>payments\<close> expands to exactly the codes 0, 1, 2, 8, 9, 13, 14,
  15, 19, 20; the list \<open>payment\<close>, \<open>5\<close> yields the codes 1 and 5; a code named twice
  is kept once; and each time the step adds one \<open>terms\<close> predicate on \<open>type\<close>.
\<close>

theorem type_expansion:
  "addTypesFilter (q\<lparr>params := (params q)(''type'' \<mapsto> JStr ''payments'')\<rparr>) filters
     = Inr (filters @ [TermsFilter ''type'' (map TNum [0, 1, 2, 8, 9, 13, 14, 15, 19, 20])])
   \<and> addTypesFilter
       (q\<lparr>params := (params q)(''type'' \<mapsto> JArr [JStr ''payment'', JStr ''5''])\<rparr>) filters
     = Inr (filters @ [TermsFilter ''type'' [TNum 1, TNum 5]])
   \<and> addTypesFilter
       (q\<lparr>params := (params q)(''type'' \<mapsto> JArr [JStr ''payment'', JStr ''5'', JStr ''1''])\<rparr>)
       filters
     = Inr (filters @ [TermsFilter ''type'' [TNum 1, TNum 5]])"
  by (simp add: addTypesFilter_def taxonomy_defs setAdd_def parse_defs)

subsection \<open>The cursor step\<close>

text \<open>
  Claim C4, as stated: for every cursor string that parses as a non-negative integer
  \<open>c\<close>, the step adds the bound \<open>c + 1\<close> (ascending) or \<open>c - 1\<close> (descending).
  This fails for the empty string: \<open>BigInt('')\<close> is 0, but the step returns before the
  conversion and adds no bound.
\<close>

theorem cursor_bound_counterexample:
  "cursor (sampleQuery ''asc'' (Some (JStr [])) Map.empty) = Some (JStr [])
   \<and> StringToBigInt [] = Some 0
   \<and> addCursorFilter (sampleQuery ''asc'' (Some (JStr [])) Map.empty)
       = Inr (sampleQuery ''asc'' (Some (JStr [])) Map.empty)
   \<and> addCursorFilter (sampleQuery ''asc'' (Some (JStr [])) Map.empty)
       \<noteq> Inr ((sampleQuery ''asc'' (Some (JStr [])) Map.empty)
                \<lparr>constraints := addBottomConstraint (0 + 1)
                   (constraints (sampleQuery ''asc'' (Some (JStr [])) Map.empty))\<rparr>)"
  by (simp add: addCursorFilter_def sampleQuery_def parse_defs addBottomConstraint_def
      newIdConstraints_def)

text \<open>
  Claim C4, amended: for every non-empty cursor string that parses as a non-negative
  integer \<open>c\<close>, the step with order \<open>asc\<close> adds the bottom bound \<open>c + 1\<close> and leaves
  the top bound as it was, and with order \<open>desc\<close> adds the top bound \<open>c - 1\<close> and
  leaves the bottom bound as it was; on fresh constraints the range is then
  \<open>{gte: c + 1}\<close>, respectively \<open>{lte: c - 1}\<close>.
\<close>

theorem cursor_bound:
  assumes "cursor q = Some (JStr s)" "s \<noteq> []" "StringToBigInt s = Some c" "0 \<le> c"
  shows "(order q = ''asc'' \<longrightarrow>
           addCursorFilter q = Inr (q\<lparr>constraints := addBottomConstraint (c + 1) (constraints q)\<rparr>)
         \<and> topBound (addBottomConstraint (c + 1) (constraints q)) = topBound (constraints q)
         \<and> (constraints q = newIdConstraints \<longrightarrow>
              resolve (addBottomConstraint (c + 1) (constraints q))
                = \<lparr>gte = Some (c + 1), lte = None\<rparr>))
       \<and> (order q = ''desc'' \<longrightarrow>
           addCursorFilter q = Inr (q\<lparr>constraints := addTopConstraint (c - 1) (constraints q)\<rparr>)
         \<and> bottom (addTopConstraint (c - 1) (constraints q)) = bottom (constraints q)
         \<and> (constraints q = newIdConstraints \<longrightarrow>
              resolve (addTopConstraint (c - 1) (constraints q))
                = \<lparr>gte = None, lte = Some (c - 1)\<rparr>))"
  using assms
  by (simp add: addCursorFilter_def BigInt_def addBottomConstraint_def addTopConstraint_def
      newIdConstraints_def resolve_def)

theorem cursor_bound_witness:
  "StringToBigInt ''1000'' = Some 1000
   \<and> addCursorFilter (sampleQuery ''asc'' (Some (JStr ''1000'')) Map.empty)
       = Inr ((sampleQuery ''asc'' (Some (JStr ''1000'')) Map.empty)
                \<lparr>constraints := addBottomConstraint 1001 newIdConstraints\<rparr>)
   \<and> resolve (addBottomConstraint 1001 newIdConstraints) = \<lparr>gte = Some 1001, lte = None\<rparr>
   \<and> addCursorFilter (sampleQuery ''desc'' (Some (JStr ''1000'')) Map.empty)
       = Inr ((sampleQuery ''desc'' (Some (JStr ''1000'')) Map.empty)
                \<lparr>constraints := addTopConstraint 999 newIdConstraints\<rparr>)
   \<and> resolve (addTopConstraint 999 newIdConstraints) = \<lparr>gte = None, lte = Some 999\<rparr>"
proof -
  have p: "StringToBigInt ''1000'' = Some 1000" by (simp add: parse_defs)
  have n: "''1000'' \<noteq> []" by simp
  have a: "cursor (sampleQuery ''asc'' (Some (JStr ''1000'')) Map.empty) = Some (JStr ''1000'')"
    and d: "cursor (sampleQuery ''desc'' (Some (JStr ''1000'')) Map.empty) = Some (JStr ''1000'')"
    by (simp_all add: sampleQuery_def)
  have z: "(0::int) \<le> 1000" by simp
  from cursor_bound [OF a n p z] cursor_bound [OF d n p z] p show ?thesis
    by (simp add: sampleQuery_def)
qed

text \<open>
  Claim C7. The cursor step raises a failure exactly when a supplied (non-empty) cursor
  does not convert to an integer, and the failure is the validation failure on
  \<open>cursor\<close>; \<open>abc\<close> raises it; \<open>-5\<close>, and every cursor that converts to a negative
  integer, leaves the query as it was.
\<close>

theorem cursor_failure:
  "((\<exists>err. addCursorFilter q = Inl err)
      \<longleftrightarrow> (\<exists>v. cursor q = Some v \<and> truthy v \<and> BigInt v = None))
   \<and> ((addCursorFilter q = Inl (ValidationError ''cursor'' ''Invalid paging cursor''))
      \<longleftrightarrow> (\<exists>err. addCursorFilter q = Inl err))
   \<and> addCursorFilter (q\<lparr>cursor := Some (JStr ''abc'')\<rparr>)
       = Inl (ValidationError ''cursor'' ''Invalid paging cursor'')
   \<and> addCursorFilter (q\<lparr>cursor := Some (JStr ''-5'')\<rparr>) = Inr (q\<lparr>cursor := Some (JStr ''-5'')\<rparr>)
   \<and> (\<forall>v c. cursor q = Some v \<and> BigInt v = Some c \<and> c < 0 \<longrightarrow> addCursorFilter q = Inr q)"
proof -
  have a: "(\<exists>err. addCursorFilter q = Inl err)
      \<longleftrightarrow> (\<exists>v. cursor q = Some v \<and> truthy v \<and> BigInt v = None)"
    by (auto simp: addCursorFilter_def split: option.splits if_splits)
  have b: "(addCursorFilter q = Inl (ValidationError ''cursor'' ''Invalid paging cursor''))
      \<longleftrightarrow> (\<exists>err. addCursorFilter q = Inl err)"
    by (auto simp: addCursorFilter_def split: option.splits if_splits)
  have c: "addCursorFilter (q\<lparr>cursor := Some (JStr ''abc'')\<rparr>)
      = Inl (ValidationError ''cursor'' ''Invalid paging cursor'')"
    by (simp add: addCursorFilter_def parse_defs)
  have d: "addCursorFilter (q\<lparr>cursor := Some (JStr ''-5'')\<rparr>)
      = Inr (q\<lparr>cursor := Some (JStr ''-5'')\<rparr>)"
    by (simp add: addCursorFilter_def parse_defs)
  have e: "\<forall>v c. cursor q = Some v \<and> BigInt v = Some c \<and> c < 0 \<longrightarrow> addCursorFilter q = Inr q"
    by (auto simp: addCursorFilter_def split: option.splits if_splits)
  from a b c d e show ?thesis by blast
qed

theorem cursor_failure_witness:
  "cursor (sampleQuery ''desc'' (Some (JStr ''-5'')) Map.empty) = Some (JStr ''-5'')
   \<and> BigInt (JStr ''-5'') = Some (- 5)
   \<and> addCursorFilter (sampleQuery ''desc'' (Some (JStr ''-5'')) Map.empty)
       = Inr (sampleQuery ''desc'' (Some (JStr ''-5'')) Map.empty)
   \<and> BigInt (JStr ''abc'') = None
   \<and> (\<exists>err. addCursorFilter (sampleQuery ''desc'' (Some (JStr ''abc'')) Map.empty) = Inl err)"
proof -
  let ?q = "sampleQuery ''desc'' (Some (JStr ''-5'')) Map.empty"
  let ?r = "sampleQuery ''desc'' (Some (JStr ''abc'')) Map.empty"
  have c: "cursor ?q = Some (JStr ''-5'')" by (simp add: sampleQuery_def)
  have b: "BigInt (JStr ''-5'') = Some (- 5)" by (simp add: parse_defs)
  have n: "BigInt (JStr ''abc'') = None" by (simp add: parse_defs)
  have "cursor ?r = Some (JStr ''abc'') \<and> truthy (JStr ''abc'') \<and> BigInt (JStr ''abc'') = None"
    using n by (simp add: sampleQuery_def)
  then have x: "\<exists>v. cursor ?r = Some v \<and> truthy v \<and> BigInt v = None" by blast
  from cursor_failure [of ?q] c b have "addCursorFilter ?q = Inr ?q" by simp
  moreover from cursor_failure [of ?r] x have "\<exists>err. addCursorFilter ?r = Inl err" by blast
  ultimately show ?thesis using c b n by simp
qed

text \<open>
  Claim C10. A cursor that is the empty string is handled as a missing cursor: the step
  returns the query as it was, with no bound and no failure, although the conversion of
  the empty string would have given 0.
\<close>

theorem cursor_empty_string:
  "addCursorFilter (q\<lparr>cursor := Some (JStr [])\<rparr>) = Inr (q\<lparr>cursor := Some (JStr [])\<rparr>)
   \<and> addCursorFilter (q\<lparr>cursor := None\<rparr>) = Inr (q\<lparr>cursor := None\<rparr>)
   \<and> BigInt (JStr []) = Some 0"
  by (simp add: addCursorFilter_def BigInt_def StringToBigInt_def trimString_def)

subsection \<open>The timestamp step\<close>

text \<open>
  Claim C6. For a ledger sequence \<open>s\<close> (a non-negative 32-bit value): a \<open>to\<close>
  timestamp that resolves to \<open>s\<close> adds the top bound \<open>(s + 1) << 32\<close>, a \<open>from\<close>
  timestamp that resolves to \<open>s\<close> adds the bottom bound \<open>s << 32\<close>, both as computed
  on 64-bit unsigned words; the values are \<open>(s + 1) * 2^32\<close> (while \<open>s + 1\<close> is a
  32-bit value) and \<open>s * 2^32\<close>. With both parameters, both bounds are added.
\<close>

theorem timestamp_bounds:
  assumes "0 \<le> s" "s < 2 ^ 32" "0 \<le> s'" "s' < 2 ^ 32"
  shows "(params q ''to'' = Some t \<and> params q ''from'' = None
            \<and> resolveSequenceFromTimestamp e (network q) (parseInt (toString t)) = Inr s \<longrightarrow>
          addTsFilter e q = Inr (q\<lparr>constraints :=
              addTopConstraint (uint (push_bit 32 (word_of_int s + 1 :: 64 word)))
                (constraints q)\<rparr>))
       \<and> (params q ''from'' = Some t' \<and> params q ''to'' = None
            \<and> resolveSequenceFromTimestamp e (network q) (parseInt (toString t')) = Inr s' \<longrightarrow>
          addTsFilter e q = Inr (q\<lparr>constraints :=
              addBottomConstraint (uint (push_bit 32 (word_of_int s' :: 64 word)))
                (constraints q)\<rparr>))
       \<and> (params q ''to'' = Some t \<and> params q ''from'' = Some t'
            \<and> resolveSequenceFromTimestamp e (network q) (parseInt (toString t)) = Inr s
            \<and> resolveSequenceFromTimestamp e (network q) (parseInt (toString t')) = Inr s' \<longrightarrow>
          addTsFilter e q = Inr (q\<lparr>constraints :=
              addBottomConstraint (uint (push_bit 32 (word_of_int s' :: 64 word)))
                (addTopConstraint (uint (push_bit 32 (word_of_int s + 1 :: 64 word)))
                   (constraints q))\<rparr>))
       \<and> (s + 1 < 2 ^ 32 \<longrightarrow>
            uint (push_bit 32 (word_of_int s + 1 :: 64 word)) = (s + 1) * 2 ^ 32)
       \<and> uint (push_bit 32 (word_of_int s' :: 64 word)) = s' * 2 ^ 32"
proof -
  have w1: "(word_of_int s + 1 :: 64 word) = word_of_int (s + 1)" by simp
  have a: "push_bit 32 (toUint32 (s + 1)) = uint (push_bit 32 (word_of_int s + 1 :: 64 word))"
    unfolding w1 by (rule shift_word)
  have b: "push_bit 32 (toUint32 s') = uint (push_bit 32 (word_of_int s' :: 64 word))"
    by (rule shift_word)
  have c: "s + 1 < 2 ^ 32 \<longrightarrow>
      uint (push_bit 32 (word_of_int s + 1 :: 64 word)) = (s + 1) * 2 ^ 32"
    using assms shift_plain [of "s + 1"] a by simp
  have d: "uint (push_bit 32 (word_of_int s' :: 64 word)) = s' * 2 ^ 32"
    using assms shift_plain [of s'] b by simp
  show ?thesis
    using a b c d by (simp add: addTsFilter_def resolveParam_def)
qed

theorem timestamp_bounds_witness:
  "resolveSequenceFromTimestamp sampleEnv ''public'' (parseInt ''100'') = Inr 20
   \<and> resolveSequenceFromTimestamp sampleEnv ''public'' (parseInt ''50'') = Inr 10
   \<and> addTsFilter sampleEnv
       (sampleQuery ''desc'' None [''to'' \<mapsto> JStr ''100'', ''from'' \<mapsto> JStr ''50''])
     = Inr ((sampleQuery ''desc'' None [''to'' \<mapsto> JStr ''100'', ''from'' \<mapsto> JStr ''50''])
              \<lparr>constraints := \<lparr>bottom = Some 42949672960, topBound = Some 90194313216\<rparr>\<rparr>)
   \<and> uint (push_bit 32 (20 + 1 :: 64 word)) = 21 * 2 ^ 32"
proof -
  let ?q = "sampleQuery ''desc'' None [''to'' \<mapsto> JStr ''100'', ''from'' \<mapsto> JStr ''50'']"
  have r1: "resolveSequenceFromTimestamp sampleEnv (network ?q) (parseInt (toString (JStr ''100'')))
      = Inr 20"
    by (simp add: sampleEnv_def parse_defs)
  have r2: "resolveSequenceFromTimestamp sampleEnv (network ?q) (parseInt (toString (JStr ''50'')))
      = Inr 10"
    by (simp add: sampleEnv_def parse_defs)
  have p: "params ?q ''to'' = Some (JStr ''100'')" "params ?q ''from'' = Some (JStr ''50'')"
    by (simp_all add: sampleQuery_def)
  have n: "network ?q = ''public''" by (simp add: sampleQuery_def)
  have c: "constraints ?q = newIdConstraints" by (simp add: sampleQuery_def)
  have rng: "(0::int) \<le> 20" "(20::int) < 2 ^ 32" "(0::int) \<le> 10" "(10::int) < 2 ^ 32"
    by simp_all
  note th = timestamp_bounds [OF rng, where q = ?q and t = "JStr ''100''" and t' = "JStr ''50''"
      and e = sampleEnv]
  from th p r1 r2 have
    "addTsFilter sampleEnv ?q = Inr (?q\<lparr>constraints :=
        addBottomConstraint (uint (push_bit 32 (word_of_int 10 :: 64 word)))
          (addTopConstraint (uint (push_bit 32 (word_of_int 20 + 1 :: 64 word)))
             (constraints ?q))\<rparr>)"
    by blast
  moreover from th have "uint (push_bit 32 (word_of_int 20 + 1 :: 64 word)) = 21 * 2 ^ 32"
    and "uint (push_bit 32 (word_of_int 10 :: 64 word)) = 10 * 2 ^ 32"
    by simp_all
  ultimately show ?thesis
    using r1 r2 n c
    by (simp add: addBottomConstraint_def addTopConstraint_def newIdConstraints_def)
qed

subsection \<open>The search request\<close>

text \<open>
  Claim C8. For a constructed query whose pipeline ends with no failure and no flag, the
  one request handed to the search index holds the accumulated predicates under
  \<open>bool.filter\<close> and nothing else as query, the normalized limit as \<open>size\<close> and as
  \<open>track_total_hits\<close>, one sort key, \<open>id\<close>, in the requested order, the timeout
  \<open>5s\<close>, \<open>_source\<close> false and the single field \<open>id\<close>.
\<close>

theorem search_request_shape:
  assumes new: "newTxQuery e net path query = Inr q"
    and run: "runPipeline (pipeline e) q [] = Inr (q', filters)"
    and feas: "\<not> isUnfeasible q'"
  shows "fst (fetchData e q) =
           [\<lparr>rq_index = opIndex e net, rq_source = False,
             rq_size = normalizeLimit e (query ''limit''), rq_timeout = ''5s'',
             rq_track_total_hits = normalizeLimit e (query ''limit''),
             rq_sort = [(''id'', case query ''order'' of None \<Rightarrow> ''desc''
                                  | Some v \<Rightarrow> toString v)],
             rq_query = BoolFilter filters, rq_fields = [''id'']\<rparr>]
         \<and> fst (toArray e q) = fst (fetchData e q)"
proof -
  have "sameRequest q q'"
    using runPipeline_frame [OF _ run] by (simp add: pipeline_framed)
  moreover from new have "network q = net \<and> limit q = normalizeLimit e (query ''limit'')
      \<and> order q = (case query ''order'' of None \<Rightarrow> ''desc'' | Some v \<Rightarrow> toString v)
      \<and> \<not> isUnfeasible q \<and> \<not> constraintsUnfeasible (constraints q)"
    by (auto simp: newTxQuery_def Let_def constraintsUnfeasible_def newIdConstraints_def
        split: option.splits if_splits)
  ultimately have b: "buildQuery e q' filters =
      \<lparr>rq_index = opIndex e net, rq_source = False,
       rq_size = normalizeLimit e (query ''limit''), rq_timeout = ''5s'',
       rq_track_total_hits = normalizeLimit e (query ''limit''),
       rq_sort = [(''id'', case query ''order'' of None \<Rightarrow> ''desc'' | Some v \<Rightarrow> toString v)],
       rq_query = BoolFilter filters, rq_fields = [''id'']\<rparr>"
    and c: "\<not> (isUnfeasible q \<or> constraintsUnfeasible (constraints q))"
    by (simp_all add: buildQuery_def sameRequest_def)
  have d: "fst (fetchData e q) = [buildQuery e q' filters]"
    using run feas
    by (simp add: fetchData_def Let_def split: sum.splits option.splits)
  have "fst (toArray e q) = fst (fetchData e q)"
    using c by (simp add: toArray_def split: prod.splits sum.splits)
  with b d show ?thesis by simp
qed

theorem search_request_shape_witness:
  "newTxQuery sampleEnv ''public'' ''/tx'' [''type'' \<mapsto> JStr ''payments'', ''order'' \<mapsto> JStr ''asc'']
     = Inr (sampleQuery ''asc'' None [''type'' \<mapsto> JStr ''payments''])
   \<and> runPipeline (pipeline sampleEnv) (sampleQuery ''asc'' None [''type'' \<mapsto> JStr ''payments'']) []
     = Inr (sampleQuery ''asc'' None [''type'' \<mapsto> JStr ''payments''],
            [TermsFilter ''type'' (map TNum [0, 1, 2, 8, 9, 13, 14, 15, 19, 20])])
   \<and> fst (toArray sampleEnv (sampleQuery ''asc'' None [''type'' \<mapsto> JStr ''payments'']))
     = [\<lparr>rq_index = ''op-index'', rq_source = False, rq_size = 10, rq_timeout = ''5s'',
         rq_track_total_hits = 10, rq_sort = [(''id'', ''asc'')],
         rq_query = BoolFilter [TermsFilter ''type'' (map TNum [0, 1, 2, 8, 9, 13, 14, 15, 19, 20])],
         rq_fields = [''id'']\<rparr>]"
proof -
  let ?query = "[''type'' \<mapsto> JStr ''payments'', ''order'' \<mapsto> JStr ''asc'']"
  let ?q = "sampleQuery ''asc'' None [''type'' \<mapsto> JStr ''payments'']"
  let ?f = "[TermsFilter ''type'' (map TNum [0, 1, 2, 8, 9, 13, 14, 15, 19, 20])]"
  have new: "newTxQuery sampleEnv ''public'' ''/tx'' ?query = Inr ?q"
    by (auto simp: newTxQuery_def sampleEnv_def sampleQuery_def fun_eq_iff)
  have run: "runPipeline (pipeline sampleEnv) ?q [] = Inr (?q, ?f)"
    by (simp add: pipeline_def sampleQuery_def sampleEnv_def addCursorFilter_def addTsFilter_def
        resolveParam_def addIdRangeFilter_def addTypesFilter_def taxonomy_defs setAdd_def
        addAccountFilter_def addAssetFilter_def addOfferFilter_def addPoolFilter_def
        addMemoFilter_def onQuery_def onFilters_def newIdConstraints_def isEmpty_def
        constraintsUnfeasible_def)
  have feas: "\<not> isUnfeasible ?q" by (simp add: sampleQuery_def)
  from search_request_shape [OF new run feas] new run show ?thesis
    by (simp add: sampleEnv_def)
qed

subsection \<open>The constructor\<close>

text \<open>
  Claim C9. On a recognized network, a query with no \<open>order\<close> parameter is constructed,
  with order \<open>desc\<close>; a supplied order other than the strings \<open>asc\<close> and \<open>desc\<close>
  is refused with the validation failure on \<open>order\<close>; a supplied \<open>asc\<close> or \<open>desc\<close>
  is kept.
\<close>

theorem order_default:
  "validateNetwork e net = None \<Longrightarrow>
     (query ''order'' = None \<longrightarrow> (\<exists>q. newTxQuery e net path query = Inr q \<and> order q = ''desc''))
   \<and> (\<forall>v. query ''order'' = Some v \<and> v \<noteq> JStr ''asc'' \<and> v \<noteq> JStr ''desc'' \<longrightarrow>
          newTxQuery e net path query = Inl (ValidationError ''order'' ''Invalid sorting order''))
   \<and> (\<forall>v. query ''order'' = Some v \<and> (v = JStr ''asc'' \<or> v = JStr ''desc'') \<longrightarrow>
          (\<exists>q. newTxQuery e net path query = Inr q \<and> JStr (order q) = v))"
  by (auto simp: newTxQuery_def Let_def)

theorem order_default_witness:
  "validateNetwork sampleEnv ''public'' = None
   \<and> (\<exists>q. newTxQuery sampleEnv ''public'' ''/tx'' Map.empty = Inr q \<and> order q = ''desc'')
   \<and> newTxQuery sampleEnv ''public'' ''/tx'' [''order'' \<mapsto> JStr ''sideways'']
       = Inl (ValidationError ''order'' ''Invalid sorting order'')"
proof -
  have v: "validateNetwork sampleEnv ''public'' = None" by (simp add: sampleEnv_def)
  note th = order_default [OF v, of _ "''/tx''"]
  from th [of Map.empty]
  have a: "\<exists>q. newTxQuery sampleEnv ''public'' ''/tx'' Map.empty = Inr q \<and> order q = ''desc''"
    by simp
  from th [of "[''order'' \<mapsto> JStr ''sideways'']"]
  have b: "newTxQuery sampleEnv ''public'' ''/tx'' [''order'' \<mapsto> JStr ''sideways'']
       = Inl (ValidationError ''order'' ''Invalid sorting order'')"
    by simp
  from v a b show ?thesis by blast
qed

end
